theory Spec2Isabelle
  imports Complex_Main
begin

section \<open>Strings\<close>

text \<open>
  Python strings are modelled as \<open>string\<close>: a list of characters, each read as one code
  point in the range 0..255. The helpers below are the string operations the three
  scripts use: prefix tests, the substring test \<open>needle in hay\<close>, and \<open>str.lower()\<close>.
\<close>

fun starts_with :: "string \<Rightarrow> string \<Rightarrow> bool" where
  "starts_with [] s = True"
| "starts_with (p # ps) [] = False"
| "starts_with (p # ps) (c # cs) = (p = c \<and> starts_with ps cs)"

fun contains :: "string \<Rightarrow> string \<Rightarrow> bool" where
  "contains needle [] = starts_with needle []"
| "contains needle (c # cs) = (starts_with needle (c # cs) \<or> contains needle cs)"

definition lower_char :: "char \<Rightarrow> char" where
  "lower_char c =
     (let n = (of_char c :: nat)
      in if (65 \<le> n \<and> n \<le> 90) \<or> (192 \<le> n \<and> n \<le> 222 \<and> n \<noteq> 215)
         then char_of (n + 32) else c)"

definition lower :: "string \<Rightarrow> string" where
  "lower s = map lower_char s"

section \<open>transcript\_downloader.py: extract\_video\_id\<close>

datatype error =
    CouldNotExtractVideoId string
  | NoTranscriptsAvailable
  | ErrorFetchingTranscript error
  | UnknownFormatType string
  | FailedToDownloadAudio string
  | AudioFileNotFound
  | WhisperNotInstalled
  | LocalWhisperFailed string
  | TranscriptionTimedOut
  | CouldNotConnect string
  | TranscriptionFailed string
  | FailedToFetchApplePage string
  | CouldNotExtractAppleAudioUrl
  | FailedToFetchAcastPage string
  | CouldNotExtractAcastAudioUrl
  | UnsupportedPlatform
  | NotAString
  | Raised string

text \<open>The character class \<open>[a-zA-Z0-9_-]\<close> (the same set as \<open>[0-9A-Za-z_-]\<close>).\<close>

definition id_char :: "char \<Rightarrow> bool" where
  "id_char c \<longleftrightarrow>
     c \<in> set ''abcdefghijklmnopqrstuvwxyzABCDEFGHIJKLMNOPQRSTUVWXYZ0123456789_-''"

text \<open>\<open>[0-9A-Za-z_-]{11}\<close> matched at the start of a string: the eleven characters.\<close>

definition id_prefix :: "string \<Rightarrow> string option" where
  "id_prefix s =
     (if 11 \<le> length s \<and> list_all id_char (take 11 s) then Some (take 11 s) else None)"

text \<open>
  \<open>re.match(r'^[a-zA-Z0-9_-]{11}$', url)\<close>: eleven identifier characters and then the end
  of the string; Python's \<open>$\<close> also matches just before a newline that ends the string.
\<close>

definition at_end :: "string \<Rightarrow> bool" where
  "at_end s \<longleftrightarrow> s = [] \<or> s = [CHR 0x0A]"

definition is_video_id :: "string \<Rightarrow> bool" where
  "is_video_id url \<longleftrightarrow> id_prefix url \<noteq> None \<and> at_end (drop 11 url)"

text \<open>
  The four patterns of the loop. \<open>After alts\<close> is \<open>(?:a1|a2|...)([0-9A-Za-z_-]{11})\<close>
  for literal alternatives (a trailing \<open>.*\<close> does not change group 1); \<open>Whole\<close> is
  \<open>^([0-9A-Za-z_-]{11})$\<close>.
\<close>

datatype id_pattern = After "string list" | Whole

fun first_alt :: "string list \<Rightarrow> string \<Rightarrow> string option" where
  "first_alt [] s = None"
| "first_alt (p # ps) s =
     (if starts_with p s
      then (case id_prefix (drop (length p) s) of
              Some v \<Rightarrow> Some v
            | None \<Rightarrow> first_alt ps s)
      else first_alt ps s)"

text \<open>\<open>re.search\<close>: the leftmost position where the pattern matches; group 1 there.\<close>

fun search_after :: "string list \<Rightarrow> string \<Rightarrow> string option" where
  "search_after alts [] = first_alt alts []"
| "search_after alts (c # cs) =
     (case first_alt alts (c # cs) of
        Some v \<Rightarrow> Some v
      | None \<Rightarrow> search_after alts cs)"

fun re_search_group :: "id_pattern \<Rightarrow> string \<Rightarrow> string option" where
  "re_search_group (After alts) url = search_after alts url"
| "re_search_group Whole url = (if is_video_id url then id_prefix url else None)"

definition patterns :: "id_pattern list" where
  "patterns = [After [''v='', ''/''], After [''embed/''], After [''watch?v=''], Whole]"

fun first_group :: "id_pattern list \<Rightarrow> string \<Rightarrow> string option" where
  "first_group [] url = None"
| "first_group (p # ps) url =
     (case re_search_group p url of
        Some v \<Rightarrow> Some v
      | None \<Rightarrow> first_group ps url)"

definition extract_video_id :: "string \<Rightarrow> error + string" where
  "extract_video_id url =
     (if is_video_id url then Inr url
      else (case first_group patterns url of
              Some v \<Rightarrow> Inr v
            | None \<Rightarrow> Inl (CouldNotExtractVideoId url)))"

section \<open>transcript\_downloader.py: collaborators\<close>

text \<open>
  The scripts reach the outside world through library calls. Each call is a field of an
  environment record, a function of the arguments the source passes; within one run a
  collaborator answers the same request the same way. Printing is left out.

  \<^item> \<open>WHISPER_AVAILABLE\<close>: the module-level flag set by \<open>import whisper\<close>.
  \<^item> \<open>whisper_transcribe model_size path language\<close>: \<open>whisper.load_model(model_size)\<close>
    followed by \<open>model.transcribe(path, language=language, fp16=False)['text']\<close>;
    \<open>Inl\<close> carries the message of an exception raised there.
  \<^item> \<open>gettempdir\<close>: \<open>tempfile.gettempdir()\<close>.
  \<^item> \<open>write_file path text\<close>: creating the parent directory and writing the file;
    \<open>Some msg\<close> is an exception raised there.
\<close>

record host =
  WHISPER_AVAILABLE :: bool
  whisper_transcribe :: "string \<Rightarrow> string \<Rightarrow> string option \<Rightarrow> string + string"
  gettempdir :: string
  write_file :: "string \<Rightarrow> string \<Rightarrow> string option"

text \<open>
  \<^item> \<open>api_get_transcript video_id languages\<close>: \<open>YouTubeTranscriptApi.get_transcript\<close>,
    \<open>languages = None\<close> when the argument is not passed; \<open>None\<close> as a result is any
    exception.
  \<^item> \<open>formatter format_type data\<close>: the three formatters of the library, taken not
    to raise.
  \<^item> \<open>subprocess_run cmd\<close>: \<open>subprocess.run(cmd, check=True, ...)\<close>, with the files the
    process wrote.
  \<^item> \<open>requests_post api_endpoint audio_file language\<close>: the upload to the Whishper
    server with the decoding of its reply (lines 197-219): the text, or the exception
    that leaves the \<open>try\<close> block.
\<close>

datatype proc_result = Completed "string list" | CalledProcessError string | ProcessError string

datatype reply = ReplyText string | ReplyTimeout | ReplyConnectionError | ReplyException string

record 't yt_env = host +
  api_get_transcript :: "string \<Rightarrow> string list option \<Rightarrow> 't option"
  formatter :: "string \<Rightarrow> 't \<Rightarrow> string"
  subprocess_run :: "string list \<Rightarrow> proc_result"
  requests_post :: "string \<Rightarrow> string \<Rightarrow> string \<Rightarrow> reply"

text \<open>
  Paths are \<open>pathlib\<close> paths on a POSIX host, kept as the text \<open>str\<close> gives for them.
  \<open>Path s\<close> is \<open>str(Path(s))\<close>: empty and \<open>.\<close> components are dropped, a leading
  \<open>//\<close> is kept and any other run of leading slashes is one slash. \<open>path_join dir name\<close>
  is \<open>str(Path(dir) / name)\<close>: an absolute \<open>name\<close> replaces \<open>dir\<close>.
\<close>

fun split_slash :: "string \<Rightarrow> string list" where
  "split_slash [] = [[]]"
| "split_slash (c # cs) =
     (if c = CHR ''/'' then [] # split_slash cs
      else (case split_slash cs of
              [] \<Rightarrow> [[c]]
            | w # ws \<Rightarrow> (c # w) # ws))"

fun join_slash :: "string list \<Rightarrow> string" where
  "join_slash [] = []"
| "join_slash [p] = p"
| "join_slash (p # q # ps) = p @ ''/'' @ join_slash (q # ps)"

definition path_root :: "string \<Rightarrow> string" where
  "path_root s =
     (if starts_with ''//'' s \<and> \<not> starts_with ''///'' s then ''//''
      else if starts_with ''/'' s then ''/''
      else [])"

definition path_parts :: "string \<Rightarrow> string list" where
  "path_parts s = filter (\<lambda>p. p \<noteq> [] \<and> p \<noteq> ''.'') (split_slash s)"

definition path_str :: "string \<Rightarrow> string list \<Rightarrow> string" where
  "path_str anchor parts =
     (if anchor = [] \<and> parts = [] then ''.'' else anchor @ join_slash parts)"

definition Path :: "string \<Rightarrow> string" where
  "Path s = path_str (path_root s) (path_parts s)"

definition path_join :: "string \<Rightarrow> string \<Rightarrow> string" where
  "path_join dir name =
     (if path_root name \<noteq> [] then Path name
      else path_str (path_root dir) (path_parts dir @ path_parts name))"

section \<open>transcript\_downloader.py: get\_transcript and format\_transcript\<close>

text \<open>
  The \<open>for\<close> loop over the preferred languages. The first component lists the
  \<open>languages\<close> arguments of the requests made, in order; the second is the first success.
\<close>

fun try_languages ::
  "('t, 'x) yt_env_scheme \<Rightarrow> string \<Rightarrow> string list \<Rightarrow>
   string list option list \<times> ('t \<times> string) option" where
  "try_languages env video_id [] = ([], None)"
| "try_languages env video_id (lang # rest) =
     (case api_get_transcript env video_id (Some [lang]) of
        Some transcript_data \<Rightarrow> ([Some [lang]], Some (transcript_data, lang))
      | None \<Rightarrow>
          (case try_languages env video_id rest of
             (requests, r) \<Rightarrow> (Some [lang] # requests, r)))"

definition get_transcript ::
  "('t, 'x) yt_env_scheme \<Rightarrow> string \<Rightarrow> string list option \<Rightarrow>
   string list option list \<times> (error + 't \<times> string)" where
  "get_transcript env video_id languages =
     (let langs = (case languages of None \<Rightarrow> [''en''] | Some ls \<Rightarrow> ls)
      in case try_languages env video_id langs of
           (requests, Some found) \<Rightarrow> (requests, Inr found)
         | (requests, None) \<Rightarrow>
             (case api_get_transcript env video_id None of
                Some transcript_data \<Rightarrow> (requests @ [None], Inr (transcript_data, ''unknown''))
              | None \<Rightarrow>
                  (requests @ [None], Inl (ErrorFetchingTranscript NoTranscriptsAvailable))))"

definition format_transcript ::
  "('t, 'x) yt_env_scheme \<Rightarrow> 't \<Rightarrow> string \<Rightarrow> error + string" where
  "format_transcript env transcript_data format_type =
     (if format_type = ''text'' then Inr (formatter env ''text'' transcript_data)
      else if format_type = ''json'' then Inr (formatter env ''json'' transcript_data)
      else if format_type = ''vtt'' then Inr (formatter env ''vtt'' transcript_data)
      else Inl (UnknownFormatType format_type))"

section \<open>transcript\_downloader.py: download\_audio and the two engines\<close>

text \<open>
  The disk is the set of paths of existing files. \<open>download_audio\<close> returns its result
  and the disk after the download.
\<close>

definition download_audio ::
  "('t, 'x) yt_env_scheme \<Rightarrow> string \<Rightarrow> string \<Rightarrow> string set \<Rightarrow>
   (error + string) \<times> string set" where
  "download_audio env url output_dir fs =
     (let output_template = path_join output_dir ''%(id)s.%(ext)s'';
          cmd = [''yt-dlp'', ''--extract-audio'', ''--audio-format'', ''mp3'',
                 ''--audio-quality'', ''0'', ''--output'', output_template,
                 ''--no-playlist'', url]
      in case subprocess_run env cmd of
           CalledProcessError stderr \<Rightarrow> (Inl (FailedToDownloadAudio stderr), fs)
         | ProcessError msg \<Rightarrow> (Inl (Raised msg), fs)
         | Completed written \<Rightarrow>
             (let fs' = fs \<union> set written
              in case extract_video_id url of
                   Inl e \<Rightarrow> (Inl e, fs')
                 | Inr video_id \<Rightarrow>
                     (let audio_file = path_join output_dir (video_id @ ''.mp3'')
                      in if audio_file \<in> fs' then (Inr audio_file, fs')
                         else (Inl AudioFileNotFound, fs'))))"

definition rstrip_slash :: "string \<Rightarrow> string" where
  "rstrip_slash s = rev (dropWhile (\<lambda>c. c = CHR ''/'') (rev s))"

definition transcribe_with_whishper ::
  "('t, 'x) yt_env_scheme \<Rightarrow> string \<Rightarrow> string \<Rightarrow> string \<Rightarrow> error + string" where
  "transcribe_with_whishper env audio_file whishper_url language =
     (let api_endpoint = rstrip_slash whishper_url @ ''/api/transcriptions''
      in case requests_post env api_endpoint audio_file language of
           ReplyText text \<Rightarrow> Inr text
         | ReplyTimeout \<Rightarrow> Inl TranscriptionTimedOut
         | ReplyConnectionError \<Rightarrow> Inl (CouldNotConnect whishper_url)
         | ReplyException e \<Rightarrow> Inl (TranscriptionFailed e))"

definition transcribe_with_local_whisper ::
  "'x host_scheme \<Rightarrow> string \<Rightarrow> string \<Rightarrow> string \<Rightarrow> error + string" where
  "transcribe_with_local_whisper env audio_file language model_size =
     (if \<not> WHISPER_AVAILABLE env then Inl WhisperNotInstalled
      else (case whisper_transcribe env model_size audio_file
                   (if language \<noteq> ''en'' then Some language else None) of
              Inr text \<Rightarrow> Inr text
            | Inl e \<Rightarrow> Inl (LocalWhisperFailed e)))"

section \<open>transcript\_downloader.py: main\<close>

record args =
  url :: string
  format :: string
  output_file :: "string option"
  languages :: string
  list_transcripts :: bool
  whishper_url :: string
  keep_audio :: bool
  audio_only :: bool
  use_local_whisper :: bool
  whisper_model :: string

text \<open>\<open>args.languages.split(',')\<close> and \<open>lang.strip()\<close>.\<close>

fun split_comma :: "string \<Rightarrow> string list" where
  "split_comma [] = [[]]"
| "split_comma (c # cs) =
     (if c = CHR '','' then [] # split_comma cs
      else (case split_comma cs of
              [] \<Rightarrow> [[c]]
            | w # ws \<Rightarrow> (c # w) # ws))"

definition is_space :: "char \<Rightarrow> bool" where
  "is_space c \<longleftrightarrow>
     (let n = (of_char c :: nat)
      in (9 \<le> n \<and> n \<le> 13) \<or> (28 \<le> n \<and> n \<le> 32) \<or> n = 133 \<or> n = 160)"

definition strip :: "string \<Rightarrow> string" where
  "strip s = rev (dropWhile is_space (rev (dropWhile is_space s)))"

text \<open>
  What a run leaves behind: how it ended, the strategies \<open>main\<close> called with their
  outcomes in call order, the disk, and the transcript file written.
\<close>

datatype strategy = NativeCaption | LocalEngine | RemoteEngine

datatype outcome = Success | Failed error

datatype stderr_line = ErrorDuringAudioTranscription error | ErrorLine error

datatype exit_status = Returned | SysExit1 stderr_line

record run =
  status :: exit_status
  attempts :: "(strategy \<times> outcome) list"
  disk :: "string set"
  saved :: "(string \<times> string) option"

text \<open>Lines 391-398: the body of the first \<open>try\<close>.\<close>

definition fetch_and_format ::
  "('t, 'x) yt_env_scheme \<Rightarrow> args \<Rightarrow> string \<Rightarrow> string list \<Rightarrow> error + string" where
  "fetch_and_format env a video_id langs =
     (case snd (get_transcript env video_id (Some langs)) of
        Inl e \<Rightarrow> Inl e
      | Inr (transcript_data, language_used) \<Rightarrow>
          format_transcript env transcript_data (format a))"

text \<open>Lines 413-436: the choice of engine once the audio is on disk.\<close>

definition transcribe_downloaded ::
  "('t, 'x) yt_env_scheme \<Rightarrow> args \<Rightarrow> string list \<Rightarrow> string \<Rightarrow>
   (strategy \<times> outcome) list \<times> (error + string)" where
  "transcribe_downloaded env a langs audio_file =
     (let primary_language = (case langs of [] \<Rightarrow> ''en'' | l # _ \<Rightarrow> l)
      in if use_local_whisper a \<or> WHISPER_AVAILABLE env
         then (case transcribe_with_local_whisper env audio_file primary_language
                      (whisper_model a) of
                 Inr text \<Rightarrow> ([(LocalEngine, Success)], Inr text)
               | Inl whisper_error \<Rightarrow>
                   if use_local_whisper a
                   then ([(LocalEngine, Failed whisper_error)], Inl whisper_error)
                   else (case transcribe_with_whishper env audio_file (whishper_url a)
                                primary_language of
                           Inr text \<Rightarrow>
                             ([(LocalEngine, Failed whisper_error), (RemoteEngine, Success)],
                              Inr text)
                         | Inl e \<Rightarrow>
                             ([(LocalEngine, Failed whisper_error), (RemoteEngine, Failed e)],
                              Inl e)))
         else (case transcribe_with_whishper env audio_file (whishper_url a)
                      primary_language of
                 Inr text \<Rightarrow> ([(RemoteEngine, Success)], Inr text)
               | Inl e \<Rightarrow> ([(RemoteEngine, Failed e)], Inl e)))"

text \<open>
  \<open>if audio_file and audio_file.exists() and not args.keep_audio: audio_file.unlink()\<close>,
  at lines 441 and 457; \<open>unlink\<close> is taken to succeed.
\<close>

definition cleanup :: "args \<Rightarrow> string option \<Rightarrow> string set \<Rightarrow> string set" where
  "cleanup a audio_file fs =
     (case audio_file of
        None \<Rightarrow> fs
      | Some f \<Rightarrow> if f \<in> fs \<and> \<not> keep_audio a then fs - {f} else fs)"

text \<open>Lines 445-459: output path, saving, final cleanup.\<close>

definition save_and_cleanup ::
  "('t, 'x) yt_env_scheme \<Rightarrow> args \<Rightarrow> string \<Rightarrow> string \<Rightarrow> string option \<Rightarrow>
   (strategy \<times> outcome) list \<Rightarrow> string set \<Rightarrow> run" where
  "save_and_cleanup env a video_id transcript_text audio_file tried fs =
     (let output_path =
            (if output_file a \<noteq> None \<and> output_file a \<noteq> Some []
             then Path (the (output_file a))
             else (let extension = (if format a \<noteq> ''text'' then format a else ''txt'')
                   in path_join ''transcripts'' (video_id @ ''.'' @ extension)))
      in case write_file env output_path transcript_text of
           Some msg \<Rightarrow>
             \<lparr>status = SysExit1 (ErrorLine (Raised msg)), attempts = tried, disk = fs,
              saved = None\<rparr>
         | None \<Rightarrow>
             \<lparr>status = Returned, attempts = tried,
              disk = cleanup a audio_file (insert output_path fs),
              saved = Some (output_path, transcript_text)\<rparr>)"

text \<open>Lines 407-443: download, transcription, and the handler that cleans up and exits.\<close>

definition audio_transcription ::
  "('t, 'x) yt_env_scheme \<Rightarrow> args \<Rightarrow> string \<Rightarrow> string list \<Rightarrow>
   (strategy \<times> outcome) list \<Rightarrow> string set \<Rightarrow> run" where
  "audio_transcription env a video_id langs tried fs =
     (let temp_dir = path_join (gettempdir env) ''youtube_transcripts''
      in case download_audio env (url a) temp_dir fs of
           (Inl e, fs') \<Rightarrow>
             \<lparr>status = SysExit1 (ErrorDuringAudioTranscription e), attempts = tried,
              disk = cleanup a None fs', saved = None\<rparr>
         | (Inr audio_file, fs') \<Rightarrow>
             (case transcribe_downloaded env a langs audio_file of
                (tried', Inl e) \<Rightarrow>
                  \<lparr>status = SysExit1 (ErrorDuringAudioTranscription e),
                   attempts = tried @ tried',
                   disk = cleanup a (Some audio_file) fs', saved = None\<rparr>
              | (tried', Inr transcript_text) \<Rightarrow>
                  save_and_cleanup env a video_id transcript_text (Some audio_file)
                    (tried @ tried') fs'))"

definition main :: "('t, 'x) yt_env_scheme \<Rightarrow> args \<Rightarrow> string set \<Rightarrow> run" where
  "main env a fs =
     (case extract_video_id (url a) of
        Inl e \<Rightarrow> \<lparr>status = SysExit1 (ErrorLine e), attempts = [], disk = fs, saved = None\<rparr>
      | Inr video_id \<Rightarrow>
          if list_transcripts a
          then \<lparr>status = Returned, attempts = [], disk = fs, saved = None\<rparr>
          else
            (let langs = map strip (split_comma (languages a))
             in if audio_only a then audio_transcription env a video_id langs [] fs
                else (case fetch_and_format env a video_id langs of
                        Inr transcript_text \<Rightarrow>
                          save_and_cleanup env a video_id transcript_text None
                            [(NativeCaption, Success)] fs
                      | Inl e \<Rightarrow>
                          audio_transcription env a video_id langs
                            [(NativeCaption, Failed e)] fs)))"

section \<open>podcast\_transcriber.py: structured data and regular expressions\<close>

text \<open>
  The values \<open>json.loads\<close> returns. \<open>JNull\<close> is Python's \<open>None\<close>; an object is an
  association list read with \<open>map_of\<close>.
\<close>

datatype pyfloat = Finite rat | NaN | Infinity | NegInfinity

datatype json =
    JNull
  | JBool bool
  | JInt int
  | JFloat pyfloat
  | JStr string
  | JArr "json list"
  | JObj "(string \<times> json) list"

text \<open>Python truth value, as \<open>if x\<close>, \<open>not x\<close> and \<open>x or y\<close> read it.\<close>

fun truthy :: "json \<Rightarrow> bool" where
  "truthy JNull = False"
| "truthy (JBool b) = b"
| "truthy (JInt n) = (n \<noteq> 0)"
| "truthy (JFloat f) = (f \<noteq> Finite 0)"
| "truthy (JStr s) = (s \<noteq> [])"
| "truthy (JArr xs) = (xs \<noteq> [])"
| "truthy (JObj kvs) = (kvs \<noteq> [])"

definition py_or :: "json \<Rightarrow> json \<Rightarrow> json" where
  "py_or x y = (if truthy x then x else y)"

definition has_key :: "(string \<times> json) list \<Rightarrow> string \<Rightarrow> bool" where
  "has_key d k \<longleftrightarrow> map_of d k \<noteq> None"

definition dict_get :: "(string \<times> json) list \<Rightarrow> string \<Rightarrow> json \<Rightarrow> json" where
  "dict_get d k dflt = (case map_of d k of Some v \<Rightarrow> v | None \<Rightarrow> dflt)"

text \<open>The first occurrence of a substring: the text before it and the text after it.\<close>

fun find_sub :: "string \<Rightarrow> string \<Rightarrow> (string \<times> string) option" where
  "find_sub needle [] = (if needle = [] then Some ([], []) else None)"
| "find_sub needle (c # cs) =
     (if starts_with needle (c # cs) then Some ([], drop (length needle) (c # cs))
      else (case find_sub needle cs of
              None \<Rightarrow> None
            | Some (before, rest) \<Rightarrow> Some (c # before, rest)))"

lemma starts_with_length: "starts_with p s \<Longrightarrow> length p \<le> length s"
  by (induction p s rule: starts_with.induct) auto

lemma find_sub_length:
  "find_sub needle s = Some (before, rest) \<Longrightarrow> length rest + length needle \<le> length s"
proof (induction s arbitrary: before)
  case Nil
  then show ?case by (auto split: if_splits)
next
  case (Cons c cs)
  show ?case
  proof (cases "starts_with needle (c # cs)")
    case True
    with Cons.prems have "rest = drop (length needle) (c # cs)" by simp
    with starts_with_length [OF True] show ?thesis by simp
  next
    case False
    with Cons.prems obtain b where "find_sub needle cs = Some (b, rest)"
      by (auto split: option.splits)
    from Cons.IH [OF this] show ?thesis by simp
  qed
qed

text \<open>
  \<open>re.findall(r'<script type="application/ld\+json">(.*?)</script>', text, re.DOTALL)\<close>:
  from each opening tag the shortest text up to a closing tag, the search resuming after
  that closing tag.
\<close>

definition ld_open :: string where
  "ld_open = ''<script type='' @ [CHR 0x22] @ ''application/ld+json'' @ [CHR 0x22] @ ''>''"

function json_ld_findall :: "string \<Rightarrow> string list" where
  "json_ld_findall text =
     (case find_sub ld_open text of
        None \<Rightarrow> []
      | Some (before, rest) \<Rightarrow>
          (case find_sub ''</script>'' rest of
             None \<Rightarrow> []
           | Some (body, rest') \<Rightarrow> body # json_ld_findall rest'))"
  by pat_completeness auto
termination
  by (relation "measure length") (auto dest!: find_sub_length simp: ld_open_def)

text \<open>
  \<open>re.findall(r'https?://[^\s<>"]+\.(?:mp3|m4a)', text)\<close>. At a position the match is
  the scheme, then the longest run of characters outside the excluded class cut back to
  the last place where \<open>.mp3\<close> or \<open>.m4a\<close> follows at least one character of the run.
\<close>

definition url_char :: "char \<Rightarrow> bool" where
  "url_char c \<longleftrightarrow> \<not> is_space c \<and> c \<noteq> CHR ''<'' \<and> c \<noteq> CHR ''>'' \<and> c \<noteq> CHR 0x22"

fun last_ext :: "string \<Rightarrow> nat option" where
  "last_ext [] = None"
| "last_ext (c # cs) =
     (case last_ext cs of
        Some k \<Rightarrow> Some (Suc k)
      | None \<Rightarrow>
          if starts_with ''.mp3'' (c # cs) \<or> starts_with ''.m4a'' (c # cs) then Some 0
          else None)"

definition match_audio_at :: "string \<Rightarrow> (string \<times> string) option" where
  "match_audio_at s =
     (let scheme = (if starts_with ''https://'' s then Some ''https://''
                    else if starts_with ''http://'' s then Some ''http://''
                    else None)
      in case scheme of
           None \<Rightarrow> None
         | Some p \<Rightarrow>
             (case takeWhile url_char (drop (length p) s) of
                [] \<Rightarrow> None
              | c # run \<Rightarrow>
                  (case last_ext run of
                     None \<Rightarrow> None
                   | Some k \<Rightarrow>
                       Some (p @ take (k + 5) (c # run), drop (length p + k + 5) s))))"

lemma match_audio_at_length:
  "match_audio_at s = Some (m, rest) \<Longrightarrow> length rest < length s"
  by (auto simp: match_audio_at_def Let_def split: if_splits option.splits list.splits
           dest: starts_with_length)

function audio_findall :: "string \<Rightarrow> string list" where
  "audio_findall [] = []"
| "audio_findall (c # cs) =
     (case match_audio_at (c # cs) of
        Some (m, rest) \<Rightarrow> m # audio_findall rest
      | None \<Rightarrow> audio_findall cs)"
  by pat_completeness auto
termination
  by (relation "measure length") (auto dest: match_audio_at_length)

section \<open>podcast\_transcriber.py: the two locators\<close>

text \<open>
  \<^item> \<open>requests_get url\<close>: \<open>requests.get\<close> with the fixed headers followed by
    \<open>raise_for_status()\<close>: the message of the \<open>RequestException\<close>, or \<open>response.text\<close>.
  \<^item> \<open>json_loads\<close>: \<open>json.loads\<close>. It returns a value, raises \<open>JSONDecodeError\<close>, or
    raises another exception (\<open>ValueError\<close> for an integer literal beyond the digit
    limit, \<open>RecursionError\<close> for deep nesting), which \<open>LoadsError\<close> carries.
  \<^item> \<open>requests_get_stream url referer\<close>: the streamed download of the audio.
    \<open>RequestFailed\<close> is raised before the output file is opened, \<open>StreamFailed\<close> while
    the chunks are written.
  \<^item> \<open>url_file_name\<close>: \<open>Path(urlparse(audio_url).path).name\<close>.
  \<^item> \<open>repr\<close>: what an f-string prints for a value that is not a string.
\<close>

datatype stream_result = Streamed | RequestFailed string | StreamFailed string

datatype loads_result = Parsed json | JSONDecodeError | LoadsError string

record pod_env = host +
  requests_get :: "string \<Rightarrow> string + string"
  json_loads :: "string \<Rightarrow> loads_result"
  requests_get_stream :: "string \<Rightarrow> string option \<Rightarrow> stream_result"
  url_file_name :: "string \<Rightarrow> string"
  repr :: "json \<Rightarrow> string"

text \<open>
  The loop state is \<open>(audio_url, episode_title, show_title)\<close>. The two functions below
  are the bodies of \<open>if isinstance(data, dict) and data.get('@type') == 'PodcastEpisode'\<close>
  up to the \<open>break\<close>: lines 57-74 and lines 156-169.
\<close>

type_synonym located = "json \<times> json \<times> json"

definition apple_episode :: "(string \<times> json) list \<Rightarrow> located \<Rightarrow> located" where
  "apple_episode d st =
     (case st of (audio_url, episode_title, show_title) \<Rightarrow>
        (let episode_title' = dict_get d ''name'' episode_title;
             audio_url1 = (if has_key d ''url'' then dict_get d ''url'' JNull else audio_url);
             audio_url2 =
               (if \<not> truthy audio_url1 \<and> has_key d ''associatedMedia''
                then (case dict_get d ''associatedMedia'' JNull of
                        JObj media \<Rightarrow>
                          py_or (dict_get media ''contentUrl'' JNull) (dict_get media ''url'' JNull)
                      | _ \<Rightarrow> audio_url1)
                else audio_url1);
             show_title' =
               (if has_key d ''partOfSeries''
                then (case dict_get d ''partOfSeries'' JNull of
                        JObj series \<Rightarrow> dict_get series ''name'' show_title
                      | _ \<Rightarrow> show_title)
                else show_title)
         in (audio_url2, episode_title', show_title')))"

definition acast_episode :: "(string \<times> json) list \<Rightarrow> located \<Rightarrow> located" where
  "acast_episode d st =
     (case st of (audio_url, episode_title, show_title) \<Rightarrow>
        (let episode_title' = dict_get d ''name'' episode_title;
             audio_url' =
               (if has_key d ''associatedMedia''
                then (case dict_get d ''associatedMedia'' JNull of
                        JObj media \<Rightarrow> dict_get media ''contentUrl'' JNull
                      | _ \<Rightarrow> audio_url)
                else audio_url);
             show_title' =
               (if has_key d ''partOfSeries''
                then (case dict_get d ''partOfSeries'' JNull of
                        JObj series \<Rightarrow> dict_get series ''name'' show_title
                      | _ \<Rightarrow> show_title)
                else show_title)
         in (audio_url', episode_title', show_title')))"

text \<open>
  \<open>for json_str in json_ld_matches\<close>, with the body of the episode branch as a
  parameter. A block on which \<open>json.loads\<close> raises \<open>JSONDecodeError\<close> is passed over
  (\<open>except json.JSONDecodeError: continue\<close>); any other exception raised there is not
  caught and leaves the loop and the locator. The loop stops at the first episode block
  after which \<open>audio_url\<close> is true.
\<close>

fun scan_blocks ::
  "(string \<Rightarrow> loads_result) \<Rightarrow> ((string \<times> json) list \<Rightarrow> located \<Rightarrow> located) \<Rightarrow>
   string list \<Rightarrow> located \<Rightarrow> error + located" where
  "scan_blocks loads episode [] st = Inr st"
| "scan_blocks loads episode (json_str # rest) st =
     (case loads json_str of
        JSONDecodeError \<Rightarrow> scan_blocks loads episode rest st
      | LoadsError msg \<Rightarrow> Inl (Raised msg)
      | Parsed (JObj d) \<Rightarrow>
          if dict_get d ''@type'' JNull = JStr ''PodcastEpisode''
          then (let st' = episode d st
                in if truthy (fst st') then Inr st' else scan_blocks loads episode rest st')
          else scan_blocks loads episode rest st
      | Parsed _ \<Rightarrow> scan_blocks loads episode rest st)"

text \<open>The three variables before the loop (lines 47-49 and 146-148).\<close>

definition start :: located where
  "start = (JNull, JStr ''Unknown Episode'', JStr ''Unknown Show'')"

text \<open>Lines 83-96 and 178-191: the scan of the page text for audio URLs.\<close>

definition cdn_hosts :: "string list" where
  "cdn_hosts = [''ausha'', ''acast'', ''libsyn'', ''buzzsprout'', ''simplecast'', ''megaphone'']"

definition apple_preferred :: "string \<Rightarrow> bool" where
  "apple_preferred u \<longleftrightarrow> list_ex (\<lambda>host. contains host (lower u)) cdn_hosts"

definition acast_preferred :: "string \<Rightarrow> bool" where
  "acast_preferred u \<longleftrightarrow> contains ''acast'' (lower u) \<or> contains ''media'' (lower u)"

definition pattern_scan :: "(string \<Rightarrow> bool) \<Rightarrow> string \<Rightarrow> json \<Rightarrow> json" where
  "pattern_scan preferred page audio_url =
     (if \<not> truthy audio_url
      then (case audio_findall page of
              [] \<Rightarrow> audio_url
            | first_match # others \<Rightarrow>
                (case find preferred (first_match # others) of
                   Some u \<Rightarrow> JStr u
                 | None \<Rightarrow> JStr first_match))
      else audio_url)"

definition extract_apple_podcasts_audio_url ::
  "'x pod_env_scheme \<Rightarrow> string \<Rightarrow> error + located" where
  "extract_apple_podcasts_audio_url env episode_url =
     (case requests_get env episode_url of
        Inl e \<Rightarrow> Inl (FailedToFetchApplePage e)
      | Inr page \<Rightarrow>
          (case scan_blocks (json_loads env) apple_episode (json_ld_findall page)
                  start of
             Inl e \<Rightarrow> Inl e
           | Inr (audio_url, episode_title, show_title) \<Rightarrow>
               (let audio_url' = pattern_scan apple_preferred page audio_url
                in if truthy audio_url' then Inr (audio_url', episode_title, show_title)
                   else Inl CouldNotExtractAppleAudioUrl)))"

text \<open>\<open>re.search(r'shows\.acast\.com/([a-f0-9]+)/([a-f0-9]+)', episode_url)\<close>.\<close>

definition hex_char :: "char \<Rightarrow> bool" where
  "hex_char c \<longleftrightarrow> c \<in> set ''abcdef0123456789''"

definition match_acast_at :: "string \<Rightarrow> (string \<times> string) option" where
  "match_acast_at s =
     (if starts_with ''shows.acast.com/'' s
      then (let after_host = drop 16 s;
                show_id = takeWhile hex_char after_host;
                after_show = drop (length show_id) after_host
            in if show_id \<noteq> [] \<and> starts_with ''/'' after_show
               then (let episode_id = takeWhile hex_char (drop 1 after_show)
                     in if episode_id \<noteq> [] then Some (show_id, episode_id) else None)
               else None)
      else None)"

fun search_acast :: "string \<Rightarrow> (string \<times> string) option" where
  "search_acast [] = None"
| "search_acast (c # cs) =
     (case match_acast_at (c # cs) of
        Some ids \<Rightarrow> Some ids
      | None \<Rightarrow> search_acast cs)"

definition extract_acast_audio_url ::
  "'x pod_env_scheme \<Rightarrow> string \<Rightarrow> error + located" where
  "extract_acast_audio_url env episode_url =
     (let direct_audio_url =
            (case search_acast episode_url of
               Some (show_id, episode_id) \<Rightarrow>
                 Some (''https://play.acast.com/s/'' @ show_id @ ''/'' @ episode_id @ ''.mp3'')
             | None \<Rightarrow> None)
      in case requests_get env episode_url of
           Inl e \<Rightarrow> Inl (FailedToFetchAcastPage e)
         | Inr page \<Rightarrow>
             (case scan_blocks (json_loads env) acast_episode (json_ld_findall page)
                     start of
                Inl e \<Rightarrow> Inl e
              | Inr (audio_url, episode_title, show_title) \<Rightarrow>
                  (let audio_url1 = pattern_scan acast_preferred page audio_url;
                       audio_url2 =
                         (case direct_audio_url of
                            Some direct \<Rightarrow> if \<not> truthy audio_url1 then JStr direct else audio_url1
                          | None \<Rightarrow> audio_url1)
                   in if truthy audio_url2 then Inr (audio_url2, episode_title, show_title)
                      else Inl CouldNotExtractAcastAudioUrl)))"

section \<open>podcast\_transcriber.py: download, transcription, main\<close>

text \<open>
  \<open>download_audio\<close> of this script. A method of \<open>str\<close> applied to a value that is not a
  string raises; that is \<open>NotAString\<close>. The result comes with the disk after the call.
\<close>

definition podcast_download_audio ::
  "'x pod_env_scheme \<Rightarrow> json \<Rightarrow> string \<Rightarrow> string option \<Rightarrow> string set \<Rightarrow>
   (error + string) \<times> string set" where
  "podcast_download_audio env audio_url output_dir filename fs =
     (case audio_url of
        JStr u \<Rightarrow>
          (let filename' =
                 (if filename \<noteq> None \<and> filename \<noteq> Some [] then the filename
                  else (let n = url_file_name env u
                        in if n = [] \<or> CHR ''.'' \<notin> set n then ''podcast.mp3'' else n));
               output_file = path_join output_dir filename';
               referer =
                 (if contains ''acast'' (lower u) then Some ''https://shows.acast.com/''
                  else if contains ''ausha'' (lower u) then Some ''https://podcasts.apple.com/''
                  else None)
           in case requests_get_stream env u referer of
                RequestFailed e \<Rightarrow> (Inl (FailedToDownloadAudio e), fs)
              | StreamFailed e \<Rightarrow> (Inl (FailedToDownloadAudio e), insert output_file fs)
              | Streamed \<Rightarrow> (Inr output_file, insert output_file fs))
      | _ \<Rightarrow> (Inl NotAString, fs))"

definition transcribe_audio ::
  "'x host_scheme \<Rightarrow> string \<Rightarrow> string \<Rightarrow> string \<Rightarrow> error + string" where
  "transcribe_audio env audio_file language model_size =
     (if \<not> WHISPER_AVAILABLE env then Inl WhisperNotInstalled
      else (case whisper_transcribe env model_size audio_file
                   (if language \<noteq> ''auto'' then Some language else None) of
              Inr text \<Rightarrow> Inr text
            | Inl e \<Rightarrow> Inl (TranscriptionFailed e)))"

definition py_str :: "'x pod_env_scheme \<Rightarrow> json \<Rightarrow> string" where
  "py_str env v = (case v of JStr s \<Rightarrow> s | _ \<Rightarrow> repr env v)"

definition save_transcript ::
  "'x pod_env_scheme \<Rightarrow> string \<Rightarrow> string \<Rightarrow> (string \<times> json) list \<Rightarrow> string set \<Rightarrow>
   (string option \<times> string) \<times> string set" where
  "save_transcript env transcript_text output_path metadata fs =
     (let rule = replicate 60 CHR ''='';
          header =
            (if metadata \<noteq> []
             then rule @ [CHR 0x0A] @
                  concat (map (\<lambda>(k, v). k @ '': '' @ py_str env v @ [CHR 0x0A]) metadata) @
                  rule @ [CHR 0x0A, CHR 0x0A]
             else []);
          content = header @ transcript_text
      in case write_file env (Path output_path) content of
           Some msg \<Rightarrow> ((Some msg, content), fs)
         | None \<Rightarrow> ((None, content), insert (Path output_path) fs))"

text \<open>
  Lines 407-408: \<open>re.sub(r'[^\w\s-]', '', episode_title)\<close>, then
  \<open>re.sub(r'[-\s]+', '-', ...)[:50]\<close>.
\<close>

definition is_word :: "char \<Rightarrow> bool" where
  "is_word c \<longleftrightarrow>
     (let n = (of_char c :: nat)
      in (48 \<le> n \<and> n \<le> 57) \<or> (65 \<le> n \<and> n \<le> 90) \<or> (97 \<le> n \<and> n \<le> 122) \<or> n = 95 \<or>
         n = 170 \<or> n = 178 \<or> n = 179 \<or> n = 181 \<or> n = 185 \<or> n = 186 \<or>
         (188 \<le> n \<and> n \<le> 190) \<or> (192 \<le> n \<and> n \<le> 214) \<or> (216 \<le> n \<and> n \<le> 246) \<or>
         248 \<le> n)"

definition dash_or_space :: "char \<Rightarrow> bool" where
  "dash_or_space c \<longleftrightarrow> c = CHR ''-'' \<or> is_space c"

function collapse_dashes :: "string \<Rightarrow> string" where
  "collapse_dashes [] = []"
| "collapse_dashes (c # cs) =
     (if dash_or_space c then CHR ''-'' # collapse_dashes (dropWhile dash_or_space cs)
      else c # collapse_dashes cs)"
  by pat_completeness auto
termination
  by (relation "measure length") (auto simp: length_dropWhile_le less_Suc_eq_le)

definition safe_name :: "string \<Rightarrow> string" where
  "safe_name episode_title =
     take 50 (collapse_dashes (filter (\<lambda>c. is_word c \<or> is_space c \<or> c = CHR ''-'') episode_title))"

record pargs =
  p_url :: string
  p_output :: "string option"
  p_language :: string
  p_model :: string
  p_keep_audio :: bool
  p_audio_dir :: "string option"

definition exit1 :: "error \<Rightarrow> (strategy \<times> outcome) list \<Rightarrow> string set \<Rightarrow> run" where
  "exit1 e tried fs =
     \<lparr>status = SysExit1 (ErrorLine e), attempts = tried, disk = fs, saved = None\<rparr>"

text \<open>Lines 403-440, once the locator has answered.\<close>

definition transcribe_located ::
  "'x pod_env_scheme \<Rightarrow> pargs \<Rightarrow> located \<Rightarrow> string set \<Rightarrow> run" where
  "transcribe_located env a loc fs =
     (case loc of (audio_url, episode_title, show_title) \<Rightarrow>
        (let audio_dir =
               (if p_audio_dir a \<noteq> None \<and> p_audio_dir a \<noteq> Some [] then Path (the (p_audio_dir a))
                else path_join (gettempdir env) ''podcast_audio'')
         in case episode_title of
              JStr title \<Rightarrow>
                (let safe_filename = safe_name title;
                     audio_filename = safe_filename @ ''.mp3''
                 in case podcast_download_audio env audio_url audio_dir (Some audio_filename) fs of
                      (Inl e, fs') \<Rightarrow> exit1 e [] fs'
                    | (Inr audio_file, fs') \<Rightarrow>
                        (case transcribe_audio env audio_file (p_language a) (p_model a) of
                           Inl e \<Rightarrow> exit1 e [(LocalEngine, Failed e)] fs'
                         | Inr transcript_text \<Rightarrow>
                             (let output_path =
                                    (if p_output a \<noteq> None \<and> p_output a \<noteq> Some []
                                     then Path (the (p_output a))
                                     else path_join ''transcripts'' (safe_filename @ ''.txt''));
                                  metadata =
                                    [(''Show'', show_title), (''Episode'', episode_title),
                                     (''Source'', JStr (p_url a)),
                                     (''Language'', JStr (p_language a)),
                                     (''Model'', JStr (p_model a))]
                              in case save_transcript env transcript_text output_path metadata fs' of
                                   ((Some msg, content), fs'') \<Rightarrow>
                                     exit1 (Raised msg) [(LocalEngine, Success)] fs''
                                 | ((None, content), fs'') \<Rightarrow>
                                     \<lparr>status = Returned, attempts = [(LocalEngine, Success)],
                                      disk = (if \<not> p_keep_audio a \<and> audio_file \<in> fs''
                                              then fs'' - {audio_file} else fs''),
                                      saved = Some (output_path, content)\<rparr>)))
            | _ \<Rightarrow> exit1 NotAString [] fs))"

definition podcast_main :: "'x pod_env_scheme \<Rightarrow> pargs \<Rightarrow> string set \<Rightarrow> run" where
  "podcast_main env a fs =
     (if contains ''acast.com'' (p_url a)
      then (case extract_acast_audio_url env (p_url a) of
              Inl e \<Rightarrow> exit1 e [] fs
            | Inr loc \<Rightarrow> transcribe_located env a loc fs)
      else if contains ''podcasts.apple.com'' (p_url a)
      then (case extract_apple_podcasts_audio_url env (p_url a) of
              Inl e \<Rightarrow> exit1 e [] fs
            | Inr loc \<Rightarrow> transcribe_located env a loc fs)
      else exit1 UnsupportedPlatform [] fs)"

section \<open>Auxiliary notions and sample runs\<close>

text \<open>A preferred language yields a track when the request for that language succeeds.\<close>

definition yields :: "('t, 'x) yt_env_scheme \<Rightarrow> string \<Rightarrow> string \<Rightarrow> bool" where
  "yields env video_id lang \<longleftrightarrow> api_get_transcript env video_id (Some [lang]) \<noteq> None"

text \<open>
  The host part of an absolute URL, and the reading of "a host on the allow-list" that
  the refuted form of the pattern-scan property is stated with.
\<close>

definition url_host :: "string \<Rightarrow> string" where
  "url_host u =
     (case find_sub ''://'' u of
        None \<Rightarrow> []
      | Some (scheme, rest) \<Rightarrow> takeWhile (\<lambda>c. c \<noteq> CHR ''/'') rest)"

definition host_recognized :: "string \<Rightarrow> bool" where
  "host_recognized u \<longleftrightarrow> list_ex (\<lambda>host. contains host (lower (url_host u))) cdn_hosts"

text \<open>
  Concrete collaborators for the closed statements below: a video without captions, a
  working and a failing local engine, and three small pages.
\<close>

definition sample_args :: args where
  "sample_args =
     \<lparr>url = ''https://www.youtube.com/watch?v=dQw4w9WgXcQ'', format = ''text'',
      output_file = None, languages = ''fr,en'', list_transcripts = False,
      whishper_url = ''http://localhost:8082'', keep_audio = False, audio_only = False,
      use_local_whisper = False, whisper_model = ''base''\<rparr>"

definition no_captions :: "string \<Rightarrow> string list option \<Rightarrow> string option" where
  "no_captions video_id langs = None"

definition english_only :: "string \<Rightarrow> string list option \<Rightarrow> string option" where
  "english_only video_id langs = (if langs = Some [''en''] then Some ''english track'' else None)"

definition whisper_ok :: "string \<Rightarrow> string \<Rightarrow> string option \<Rightarrow> string + string" where
  "whisper_ok model_size path language = Inr ''local text''"

definition whisper_broken :: "string \<Rightarrow> string \<Rightarrow> string option \<Rightarrow> string + string" where
  "whisper_broken model_size path language = Inl ''out of memory''"

definition yt_dlp_ok :: "string list \<Rightarrow> proc_result" where
  "yt_dlp_ok cmd = Completed [''/tmp/youtube_transcripts/dQw4w9WgXcQ.mp3'']"

definition whishper_ok :: "string \<Rightarrow> string \<Rightarrow> string \<Rightarrow> reply" where
  "whishper_ok api_endpoint audio_file language = ReplyText ''remote text''"

definition write_ok :: "string \<Rightarrow> string \<Rightarrow> string option" where
  "write_ok path text = None"

definition plain_formatter :: "string \<Rightarrow> string \<Rightarrow> string" where
  "plain_formatter format_type track = track"

definition sample_env :: "string yt_env" where
  "sample_env =
     \<lparr>WHISPER_AVAILABLE = True, whisper_transcribe = whisper_ok, gettempdir = ''/tmp'',
      write_file = write_ok, api_get_transcript = no_captions, formatter = plain_formatter,
      subprocess_run = yt_dlp_ok, requests_post = whishper_ok\<rparr>"

definition broken_whisper_env :: "string yt_env" where
  "broken_whisper_env = sample_env\<lparr>whisper_transcribe := whisper_broken\<rparr>"

definition no_whisper_env :: "string yt_env" where
  "no_whisper_env = sample_env\<lparr>WHISPER_AVAILABLE := False\<rparr>"

definition english_env :: "string yt_env" where
  "english_env = sample_env\<lparr>api_get_transcript := english_only\<rparr>"

definition pinned_args :: args where
  "pinned_args = sample_args\<lparr>use_local_whisper := True\<rparr>"

definition audio_only_args :: args where
  "audio_only_args = sample_args\<lparr>audio_only := True\<rparr>"

definition echo_language :: "string \<Rightarrow> string \<Rightarrow> string option \<Rightarrow> string + string" where
  "echo_language model_size path language =
     (case language of None \<Rightarrow> Inr ''engine decides'' | Some code \<Rightarrow> Inr code)"

definition echo_host :: host where
  "echo_host =
     \<lparr>WHISPER_AVAILABLE = True, whisper_transcribe = echo_language, gettempdir = ''/tmp'',
      write_file = write_ok\<rparr>"

definition acast_url :: string where
  "acast_url = ''https://shows.acast.com/abc123/def456''"

definition apple_url :: string where
  "apple_url = ''https://podcasts.apple.com/us/podcast/show/id100?i=200''"

definition apple_url2 :: string where
  "apple_url2 = ''https://podcasts.apple.com/us/podcast/show/id100?i=300''"

definition acast_url2 :: string where
  "acast_url2 = ''https://shows.acast.com/abc123/999fff''"

definition acast_url3 :: string where
  "acast_url3 = ''https://shows.acast.com/abc123/000aaa''"

definition block_direct :: string where
  \<open>block_direct = ''{"@type": "PodcastEpisode", "url": "https://a.example/ep1.mp3", "contentUrl": "https://a.example/ep1.mp3"}''\<close>

definition direct_fields :: "(string \<times> json) list" where
  "direct_fields =
     [(''@type'', JStr ''PodcastEpisode''), (''url'', JStr ''https://a.example/ep1.mp3''),
      (''contentUrl'', JStr ''https://a.example/ep1.mp3'')]"

definition content_url_fields :: "(string \<times> json) list" where
  "content_url_fields =
     [(''@type'', JStr ''PodcastEpisode''), (''contentUrl'', JStr ''https://a.example/ep1.mp3'')]"

definition block_media :: string where
  \<open>block_media = ''{"@type": "PodcastEpisode", "name": "Episode 7", "associatedMedia": {"contentUrl": "https://sphinx.acast.com/p/ep7.mp3", "url": "https://shows.acast.com/abc123/999fff"}, "partOfSeries": {"name": "The Show"}}''\<close>

definition media_fields :: "(string \<times> json) list" where
  "media_fields =
     [(''contentUrl'', JStr ''https://sphinx.acast.com/p/ep7.mp3''),
      (''url'', JStr ''https://shows.acast.com/abc123/999fff'')]"

definition episode_media_fields :: "(string \<times> json) list" where
  "episode_media_fields =
     [(''@type'', JStr ''PodcastEpisode''), (''name'', JStr ''Episode 7''),
      (''associatedMedia'', JObj media_fields),
      (''partOfSeries'', JObj [(''name'', JStr ''The Show'')])]"

definition generic_only_fields :: "(string \<times> json) list" where
  "generic_only_fields =
     [(''@type'', JStr ''PodcastEpisode''),
      (''associatedMedia'', JObj [(''url'', JStr ''https://a.example/generic.mp3'')])]"

definition page_direct :: string where
  \<open>page_direct = ''<a href="https://b.example/other.mp3">x</a><script type="application/ld+json">{"@type": "PodcastEpisode", "url": "https://a.example/ep1.mp3", "contentUrl": "https://a.example/ep1.mp3"}</script>''\<close>

definition page_media :: string where
  \<open>page_media = ''<a href="https://b.example/other.mp3">x</a><script type="application/ld+json">{"@type": "PodcastEpisode", "name": "Episode 7", "associatedMedia": {"contentUrl": "https://sphinx.acast.com/p/ep7.mp3", "url": "https://shows.acast.com/abc123/999fff"}, "partOfSeries": {"name": "The Show"}}</script>''\<close>

definition page_two_urls :: string where
  \<open>page_two_urls = ''<a href="https://files.example.org/libsyn-backup/ep.mp3">mirror</a> <a href="https://traffic.libsyn.com/show/ep.mp3">cdn</a>''\<close>

definition page_plain :: string where
  "page_plain = ''<html><body>no audio here</body></html>''"

definition serve_pages :: "string \<Rightarrow> string + string" where
  "serve_pages u =
     (if u = acast_url \<or> u = apple_url then Inr page_direct
      else if u = apple_url2 then Inr page_two_urls
      else if u = acast_url2 then Inr page_media
      else if u = acast_url3 then Inr page_plain
      else Inl ''404 Client Error'')"

definition offline :: "string \<Rightarrow> string + string" where
  "offline u = Inl ''Connection refused''"

definition block_huge :: string where
  \<open>block_huge = ''{"@type": "PodcastEpisode", "position": '' @ replicate 4301 CHR ''1'' @ ''}''\<close>

definition digit_limit :: string where
  "digit_limit = ''Exceeds the limit (4300 digits) for integer string conversion''"

definition loads_sample :: "string \<Rightarrow> loads_result" where
  "loads_sample s =
     (if s = block_direct then Parsed (JObj direct_fields)
      else if s = block_media then Parsed (JObj episode_media_fields)
      else if s = block_huge then LoadsError digit_limit
      else JSONDecodeError)"

definition stream_ok :: "string \<Rightarrow> string option \<Rightarrow> stream_result" where
  "stream_ok u referer = Streamed"

definition basename_sample :: "string \<Rightarrow> string" where
  "basename_sample u = ''audio.mp3''"

definition repr_sample :: "json \<Rightarrow> string" where
  "repr_sample v = ''<value>''"

definition sample_pod_env :: pod_env where
  "sample_pod_env =
     \<lparr>WHISPER_AVAILABLE = True, whisper_transcribe = whisper_ok, gettempdir = ''/tmp'',
      write_file = write_ok, requests_get = serve_pages, json_loads = loads_sample,
      requests_get_stream = stream_ok, url_file_name = basename_sample, repr = repr_sample\<rparr>"

definition sample_pargs :: pargs where
  "sample_pargs =
     \<lparr>p_url = acast_url, p_output = None, p_language = ''auto'', p_model = ''base'',
      p_keep_audio = False, p_audio_dir = None\<rparr>"

definition offline_pod_env :: pod_env where
  "offline_pod_env = sample_pod_env\<lparr>requests_get := offline\<rparr>"

definition no_whisper_pod_env :: pod_env where
  "no_whisper_pod_env = sample_pod_env\<lparr>WHISPER_AVAILABLE := False\<rparr>"

section \<open>Properties of extract\_video\_id\<close>

lemma id_prefix_shape: "id_prefix s = Some v \<Longrightarrow> length v = 11 \<and> list_all id_char v"
  by (auto simp: id_prefix_def split: if_splits)

lemma id11_is_video_id: "length v = 11 \<Longrightarrow> list_all id_char v \<Longrightarrow> is_video_id v"
  by (simp add: is_video_id_def id_prefix_def at_end_def)

lemma first_alt_shape: "first_alt ps s = Some v \<Longrightarrow> length v = 11 \<and> list_all id_char v"
  by (induction ps) (auto split: if_splits option.splits dest: id_prefix_shape)

lemma search_after_shape:
  "search_after alts s = Some v \<Longrightarrow> length v = 11 \<and> list_all id_char v"
  by (induction s) (auto split: option.splits dest: first_alt_shape)

lemma re_search_group_shape:
  "re_search_group p s = Some v \<Longrightarrow> length v = 11 \<and> list_all id_char v"
  by (cases p) (auto split: if_splits dest: search_after_shape id_prefix_shape)

lemma first_group_shape:
  "first_group ps s = Some v \<Longrightarrow> length v = 11 \<and> list_all id_char v"
  by (induction ps) (auto split: option.splits dest: re_search_group_shape)

text \<open>
  C10. An input that is already an eleven-character video id is returned unchanged, and
  extraction is idempotent: whenever it succeeds with \<open>v\<close>, extracting from \<open>v\<close> gives
  \<open>v\<close> again.
\<close>

theorem extract_video_id_idempotent:
  "(length u = 11 \<and> list_all id_char u \<longrightarrow> extract_video_id u = Inr u) \<and>
   (extract_video_id u = Inr v \<longrightarrow> extract_video_id v = Inr v)"
proof (intro conjI impI)
  assume "length u = 11 \<and> list_all id_char u"
  then show "extract_video_id u = Inr u"
    by (simp add: extract_video_id_def id11_is_video_id)
next
  assume r: "extract_video_id u = Inr v"
  show "extract_video_id v = Inr v"
  proof (cases "is_video_id u")
    case True
    with r have "v = u" by (simp add: extract_video_id_def)
    with True show ?thesis by (simp add: extract_video_id_def)
  next
    case False
    with r have "first_group patterns u = Some v"
      by (auto simp: extract_video_id_def split: option.splits)
    then have "length v = 11 \<and> list_all id_char v" by (rule first_group_shape)
    then show ?thesis by (simp add: extract_video_id_def id11_is_video_id)
  qed
qed

theorem extract_video_id_idempotent_witness:
  "(length ''dQw4w9WgXcQ'' = 11 \<and> list_all id_char ''dQw4w9WgXcQ'' \<and>
    extract_video_id ''dQw4w9WgXcQ'' = Inr ''dQw4w9WgXcQ'') \<and>
   (extract_video_id ''https://www.youtube.com/watch?v=dQw4w9WgXcQ'' = Inr ''dQw4w9WgXcQ'' \<and>
    extract_video_id ''dQw4w9WgXcQ'' = Inr ''dQw4w9WgXcQ'')"
proof -
  have h1: "length ''dQw4w9WgXcQ'' = 11 \<and> list_all id_char ''dQw4w9WgXcQ''"
    by (simp add: id_char_def)
  have h2: "extract_video_id ''https://www.youtube.com/watch?v=dQw4w9WgXcQ'' = Inr ''dQw4w9WgXcQ''"
    by code_simp
  from h1 h2 extract_video_id_idempotent [of "''dQw4w9WgXcQ''"]
    extract_video_id_idempotent [of "''https://www.youtube.com/watch?v=dQw4w9WgXcQ''" "''dQw4w9WgXcQ''"]
  show ?thesis by blast
qed

section \<open>Properties of transcript\_downloader.py\<close>

text \<open>The path operations on the cases where \<open>pathlib\<close> changes the text.\<close>

lemma path_examples:
  "path_join ''out/'' ''n.mp3'' = ''out/n.mp3'' \<and>
   path_join ''.'' ''n.mp3'' = ''n.mp3'' \<and>
   path_join ''/tmp'' ''youtube_transcripts'' = ''/tmp/youtube_transcripts'' \<and>
   path_join ''a'' ''/b'' = ''/b'' \<and>
   path_join [] [] = ''.'' \<and>
   Path ''//a//b/./c/'' = ''//a/b/c'' \<and>
   Path ''///a'' = ''/a'' \<and>
   Path ''a/..'' = ''a/..''"
  by code_simp

lemma try_languages_eq:
  "try_languages env vid langs =
     (map (\<lambda>x. Some [x]) (takeWhile (\<lambda>x. \<not> yields env vid x) langs) @
        (case find (yields env vid) langs of Some l \<Rightarrow> [Some [l]] | None \<Rightarrow> []),
      (case find (yields env vid) langs of
         Some l \<Rightarrow> Some (the (api_get_transcript env vid (Some [l])), l)
       | None \<Rightarrow> None))"
  by (induction langs) (auto simp: yields_def split: option.splits)

text \<open>
  C6. \<open>get_transcript\<close> requests the preferred languages one by one in list order and
  stops at the first that yields a track, which it returns with that language tag. When
  none yields a track it makes one more request without a language, and only if that
  fails too does it fail.
\<close>

theorem get_transcript_language_order:
  "(find (yields env vid) langs = Some l \<longrightarrow>
      (\<exists>track. api_get_transcript env vid (Some [l]) = Some track \<and>
         get_transcript env vid (Some langs) =
           (map (\<lambda>x. Some [x]) (takeWhile (\<lambda>x. \<not> yields env vid x) langs) @ [Some [l]],
            Inr (track, l)))) \<and>
   (find (yields env vid) langs = None \<longrightarrow>
      get_transcript env vid (Some langs) =
        (map (\<lambda>x. Some [x]) langs @ [None],
         (case api_get_transcript env vid None of
            Some track \<Rightarrow> Inr (track, ''unknown'')
          | None \<Rightarrow> Inl (ErrorFetchingTranscript NoTranscriptsAvailable))))"
proof (intro conjI impI)
  assume f: "find (yields env vid) langs = Some l"
  then have "yields env vid l" by (auto simp: find_Some_iff)
  then obtain track where t: "api_get_transcript env vid (Some [l]) = Some track"
    by (auto simp: yields_def)
  show "\<exists>track. api_get_transcript env vid (Some [l]) = Some track \<and>
         get_transcript env vid (Some langs) =
           (map (\<lambda>x. Some [x]) (takeWhile (\<lambda>x. \<not> yields env vid x) langs) @ [Some [l]],
            Inr (track, l))"
    by (simp add: get_transcript_def try_languages_eq f t)
next
  assume f: "find (yields env vid) langs = None"
  then have tw: "takeWhile (\<lambda>x. \<not> yields env vid x) langs = langs"
    by (auto simp: find_None_iff takeWhile_eq_all_conv)
  show "get_transcript env vid (Some langs) =
        (map (\<lambda>x. Some [x]) langs @ [None],
         (case api_get_transcript env vid None of
            Some track \<Rightarrow> Inr (track, ''unknown'')
          | None \<Rightarrow> Inl (ErrorFetchingTranscript NoTranscriptsAvailable)))"
    by (simp add: get_transcript_def try_languages_eq f tw split: option.splits)
qed

theorem get_transcript_language_order_witness:
  "find (yields english_env ''dQw4w9WgXcQ'') [''fr'', ''en''] = Some ''en'' \<and>
   get_transcript english_env ''dQw4w9WgXcQ'' (Some [''fr'', ''en'']) =
     ([Some [''fr''], Some [''en'']], Inr (''english track'', ''en'')) \<and>
   find (yields english_env ''dQw4w9WgXcQ'') [''fr'', ''de''] = None \<and>
   get_transcript english_env ''dQw4w9WgXcQ'' (Some [''fr'', ''de'']) =
     ([Some [''fr''], Some [''de''], None],
      Inl (ErrorFetchingTranscript NoTranscriptsAvailable))"
proof -
  have h1: "find (yields english_env ''dQw4w9WgXcQ'') [''fr'', ''en''] = Some ''en''"
    by code_simp
  have h2: "find (yields english_env ''dQw4w9WgXcQ'') [''fr'', ''de''] = None"
    by code_simp
  have e1: "api_get_transcript english_env ''dQw4w9WgXcQ'' (Some [''en'']) = Some ''english track''"
    by code_simp
  have e2: "api_get_transcript english_env ''dQw4w9WgXcQ'' None = None"
    by code_simp
  have y1: "\<not> yields english_env ''dQw4w9WgXcQ'' ''fr''" by code_simp
  have y2: "yields english_env ''dQw4w9WgXcQ'' ''en''" by code_simp
  from get_transcript_language_order [of english_env "''dQw4w9WgXcQ''" "[''fr'', ''en'']" "''en''"]
    get_transcript_language_order [of english_env "''dQw4w9WgXcQ''" "[''fr'', ''de'']"]
    h1 h2 e1 e2 y1 y2
  show ?thesis by simp
qed

lemma transcribe_downloaded_cases:
  "(\<exists>t. transcribe_downloaded env a langs f = ([(LocalEngine, Success)], Inr t) \<and>
        WHISPER_AVAILABLE env) \<or>
   (\<exists>w. transcribe_downloaded env a langs f = ([(LocalEngine, Failed w)], Inl w) \<and>
        use_local_whisper a \<and> (\<not> WHISPER_AVAILABLE env \<longrightarrow> w = WhisperNotInstalled)) \<or>
   (\<exists>w t. transcribe_downloaded env a langs f =
        ([(LocalEngine, Failed w), (RemoteEngine, Success)], Inr t) \<and>
        \<not> use_local_whisper a) \<or>
   (\<exists>w e. transcribe_downloaded env a langs f =
        ([(LocalEngine, Failed w), (RemoteEngine, Failed e)], Inl e) \<and>
        \<not> use_local_whisper a) \<or>
   (\<exists>t. transcribe_downloaded env a langs f = ([(RemoteEngine, Success)], Inr t) \<and>
        \<not> use_local_whisper a \<and> \<not> WHISPER_AVAILABLE env) \<or>
   (\<exists>e. transcribe_downloaded env a langs f = ([(RemoteEngine, Failed e)], Inl e) \<and>
        \<not> use_local_whisper a \<and> \<not> WHISPER_AVAILABLE env)"
proof -
  let ?p = "case langs of [] \<Rightarrow> ''en'' | l # _ \<Rightarrow> l"
  show ?thesis
  proof (cases "transcribe_with_local_whisper env f ?p (whisper_model a)")
    case (Inr t)
    then have "WHISPER_AVAILABLE env"
      by (auto simp: transcribe_with_local_whisper_def split: if_splits)
    with Inr show ?thesis
      by (cases "transcribe_with_whishper env f (whishper_url a) ?p")
         (simp_all add: transcribe_downloaded_def)
  next
    case (Inl w)
    then have "\<not> WHISPER_AVAILABLE env \<longrightarrow> w = WhisperNotInstalled"
      by (auto simp: transcribe_with_local_whisper_def split: if_splits)
    with Inl show ?thesis
      by (cases "transcribe_with_whishper env f (whishper_url a) ?p")
         (auto simp: transcribe_downloaded_def Let_def)
  qed
qed

lemma save_and_cleanup_attempts [simp]:
  "attempts (save_and_cleanup env a vid text af tried fs) = tried"
  by (simp add: save_and_cleanup_def Let_def split: option.splits)

lemma audio_transcription_attempts:
  "attempts (audio_transcription env a vid langs tried fs) = tried \<or>
   (WHISPER_AVAILABLE env \<and>
      attempts (audio_transcription env a vid langs tried fs) = tried @ [(LocalEngine, Success)]) \<or>
   (\<exists>w. use_local_whisper a \<and> (\<not> WHISPER_AVAILABLE env \<longrightarrow> w = WhisperNotInstalled) \<and>
      attempts (audio_transcription env a vid langs tried fs) = tried @ [(LocalEngine, Failed w)] \<and>
      status (audio_transcription env a vid langs tried fs) =
        SysExit1 (ErrorDuringAudioTranscription w)) \<or>
   (\<exists>w out. \<not> use_local_whisper a \<and>
      attempts (audio_transcription env a vid langs tried fs) =
        tried @ [(LocalEngine, Failed w), (RemoteEngine, out)]) \<or>
   (\<exists>out. \<not> use_local_whisper a \<and> \<not> WHISPER_AVAILABLE env \<and>
      attempts (audio_transcription env a vid langs tried fs) = tried @ [(RemoteEngine, out)])"
proof (cases "download_audio env (url a) (path_join (gettempdir env) ''youtube_transcripts'') fs")
  case (Pair r fs')
  show ?thesis
  proof (cases r)
    case (Inl e)
    with Pair show ?thesis by (simp add: audio_transcription_def)
  next
    case (Inr f)
    from transcribe_downloaded_cases [of env a langs f] Pair Inr show ?thesis
      by (elim disjE exE conjE) (simp_all add: audio_transcription_def)
  qed
qed

lemma main_attempts:
  "attempts (main env a fs) = [] \<or>
   attempts (main env a fs) = [(NativeCaption, Success)] \<or>
   (\<exists>vid langs. audio_only a \<and> main env a fs = audio_transcription env a vid langs [] fs) \<or>
   (\<exists>vid langs e. \<not> audio_only a \<and>
      main env a fs = audio_transcription env a vid langs [(NativeCaption, Failed e)] fs)"
  by (auto simp: main_def Let_def split: sum.splits)

text \<open>
  What the environment has to do for the two log entries of the next property to appear:
  the caption step fails, the download succeeds, the local engine answers.
\<close>

lemma caption_failure_then_local_success:
  assumes "extract_video_id (url a) = Inr vid" "\<not> list_transcripts a" "\<not> audio_only a"
    and "fetch_and_format env a vid (map strip (split_comma (languages a))) = Inl e"
    and "download_audio env (url a) (path_join (gettempdir env) ''youtube_transcripts'') fs =
           (Inr f, fs')"
    and "transcribe_with_local_whisper env f
           (case map strip (split_comma (languages a)) of [] \<Rightarrow> ''en'' | l # _ \<Rightarrow> l)
           (whisper_model a) = Inr text"
  shows "attempts (main env a fs) = [(NativeCaption, Failed e), (LocalEngine, Success)]"
proof -
  from assms(6) have "WHISPER_AVAILABLE env"
    by (auto simp: transcribe_with_local_whisper_def split: if_splits)
  with assms show ?thesis
    by (simp add: main_def audio_transcription_def transcribe_downloaded_def Let_def)
qed

text \<open>
  C1. In a run whose caption retrieval fails and whose local engine succeeds, the calls
  are the native caption and then the local engine, and the remote engine is never called.
  Whenever the local engine is available or requested, a call of the remote engine comes
  after a call of the local engine.
\<close>

theorem fallback_chain_order:
  "((NativeCaption, Failed e) \<in> set (attempts (main env a fs)) \<and>
    (LocalEngine, Success) \<in> set (attempts (main env a fs)) \<longrightarrow>
      WHISPER_AVAILABLE env \<and>
      attempts (main env a fs) = [(NativeCaption, Failed e), (LocalEngine, Success)] \<and>
      RemoteEngine \<notin> fst ` set (attempts (main env a fs))) \<and>
   (use_local_whisper a \<or> WHISPER_AVAILABLE env \<longrightarrow>
      (\<forall>i < length (attempts (main env a fs)).
         fst (attempts (main env a fs) ! i) = RemoteEngine \<longrightarrow>
         (\<exists>j < i. fst (attempts (main env a fs) ! j) = LocalEngine)))"
proof -
  consider (none) "attempts (main env a fs) = []"
    | (cap) "attempts (main env a fs) = [(NativeCaption, Success)]"
    | (audio) vid langs where "audio_only a"
        "main env a fs = audio_transcription env a vid langs [] fs"
    | (fallback) vid langs e' where "\<not> audio_only a"
        "main env a fs = audio_transcription env a vid langs [(NativeCaption, Failed e')] fs"
    using main_attempts [of env a fs] by blast
  then show ?thesis
  proof cases
    case none
    then show ?thesis by simp
  next
    case cap
    then show ?thesis by simp
  next
    case audio
    from audio_transcription_attempts [of env a vid langs "[]" fs] show ?thesis
      unfolding audio(2)
      by (elim disjE exE conjE) (auto simp: nth_Cons split: nat.splits)
  next
    case fallback
    from audio_transcription_attempts [of env a vid langs "[(NativeCaption, Failed e')]" fs]
    show ?thesis
      unfolding fallback(2)
      by (elim disjE exE conjE) (auto simp: nth_Cons split: nat.splits)
  qed
qed

theorem fallback_chain_order_witness:
  "(NativeCaption, Failed (ErrorFetchingTranscript NoTranscriptsAvailable))
      \<in> set (attempts (main sample_env sample_args {})) \<and>
   (LocalEngine, Success) \<in> set (attempts (main sample_env sample_args {})) \<and>
   attempts (main sample_env sample_args {}) =
     [(NativeCaption, Failed (ErrorFetchingTranscript NoTranscriptsAvailable)),
      (LocalEngine, Success)] \<and>
   RemoteEngine \<notin> fst ` set (attempts (main sample_env sample_args {})) \<and>
   WHISPER_AVAILABLE broken_whisper_env \<and>
   2 < length (attempts (main broken_whisper_env sample_args {})) \<and>
   fst (attempts (main broken_whisper_env sample_args {}) ! 2) = RemoteEngine \<and>
   fst (attempts (main broken_whisper_env sample_args {}) ! 1) = LocalEngine"
proof -
  have a1: "attempts (main sample_env sample_args {}) =
     [(NativeCaption, Failed (ErrorFetchingTranscript NoTranscriptsAvailable)),
      (LocalEngine, Success)]"
    by code_simp
  have a2: "attempts (main broken_whisper_env sample_args {}) =
     [(NativeCaption, Failed (ErrorFetchingTranscript NoTranscriptsAvailable)),
      (LocalEngine, Failed (LocalWhisperFailed ''out of memory'')),
      (RemoteEngine, Success)]"
    by code_simp
  have av: "WHISPER_AVAILABLE broken_whisper_env" by code_simp
  from fallback_chain_order
         [of "ErrorFetchingTranscript NoTranscriptsAvailable" sample_env sample_args "{}"]
       fallback_chain_order [of _ broken_whisper_env sample_args "{}"] a1 a2 av
  show ?thesis by simp
qed

text \<open>
  C2. With \<open>--use-local-whisper\<close> set, a failure of the local engine ends the run with
  that very error and the remote engine is not called; when Whisper is not installed the
  error is the one raised at line 242.
\<close>

theorem pinned_local_failure_is_terminal:
  "use_local_whisper a \<and> (LocalEngine, Failed e) \<in> set (attempts (main env a fs)) \<longrightarrow>
     status (main env a fs) = SysExit1 (ErrorDuringAudioTranscription e) \<and>
     RemoteEngine \<notin> fst ` set (attempts (main env a fs)) \<and>
     (\<not> WHISPER_AVAILABLE env \<longrightarrow> e = WhisperNotInstalled)"
proof -
  consider (none) "attempts (main env a fs) = []"
    | (cap) "attempts (main env a fs) = [(NativeCaption, Success)]"
    | (audio) vid langs where "audio_only a"
        "main env a fs = audio_transcription env a vid langs [] fs"
    | (fallback) vid langs e' where "\<not> audio_only a"
        "main env a fs = audio_transcription env a vid langs [(NativeCaption, Failed e')] fs"
    using main_attempts [of env a fs] by blast
  then show ?thesis
  proof cases
    case none
    then show ?thesis by simp
  next
    case cap
    then show ?thesis by simp
  next
    case audio
    from audio_transcription_attempts [of env a vid langs "[]" fs] show ?thesis
      unfolding audio(2)
      by (elim disjE exE conjE) auto
  next
    case fallback
    from audio_transcription_attempts [of env a vid langs "[(NativeCaption, Failed e')]" fs]
    show ?thesis
      unfolding fallback(2)
      by (elim disjE exE conjE) auto
  qed
qed

theorem pinned_local_failure_is_terminal_witness:
  "use_local_whisper pinned_args \<and>
   (LocalEngine, Failed WhisperNotInstalled) \<in> set (attempts (main no_whisper_env pinned_args {})) \<and>
   status (main no_whisper_env pinned_args {}) =
     SysExit1 (ErrorDuringAudioTranscription WhisperNotInstalled) \<and>
   RemoteEngine \<notin> fst ` set (attempts (main no_whisper_env pinned_args {})) \<and>
   \<not> WHISPER_AVAILABLE no_whisper_env \<and>
   whishper_url pinned_args = ''http://localhost:8082''"
proof -
  have a: "attempts (main no_whisper_env pinned_args {}) =
     [(NativeCaption, Failed (ErrorFetchingTranscript NoTranscriptsAvailable)),
      (LocalEngine, Failed WhisperNotInstalled)]"
    by code_simp
  have p: "use_local_whisper pinned_args" by code_simp
  have n: "\<not> WHISPER_AVAILABLE no_whisper_env" by code_simp
  have u: "whishper_url pinned_args = ''http://localhost:8082''" by code_simp
  from pinned_local_failure_is_terminal [of pinned_args WhisperNotInstalled no_whisper_env "{}"]
    a p n u
  show ?thesis by simp
qed

section \<open>Properties of podcast\_transcriber.py\<close>

lemma scan_blocks_append:
  "scan_blocks loads ep pre st = Inr st' \<Longrightarrow> \<not> truthy (fst st') \<Longrightarrow>
   scan_blocks loads ep (pre @ rest) st = scan_blocks loads ep rest st'"
proof (induction pre arbitrary: st)
  case Nil
  then show ?case by simp
next
  case (Cons b pre)
  show ?case
  proof (cases "loads b")
    case JSONDecodeError
    with Cons show ?thesis by simp
  next
    case (LoadsError msg)
    with Cons.prems show ?thesis by simp
  next
    case (Parsed data)
    show ?thesis
    proof (cases data)
      case (JObj d)
      show ?thesis
      proof (cases "dict_get d ''@type'' JNull = JStr ''PodcastEpisode''")
        case True
        show ?thesis
        proof (cases "truthy (fst (ep d st))")
          case stop: True
          with Cons.prems Parsed JObj True have False by (auto simp: Let_def)
          then show ?thesis ..
        next
          case go: False
          with Cons.prems Parsed JObj True
          have "scan_blocks loads ep pre (ep d st) = Inr st'" by (simp add: Let_def)
          from Cons.IH [OF this Cons.prems(2)] Parsed JObj True go show ?thesis
            by (simp add: Let_def)
        qed
      next
        case False
        with Cons.prems Parsed JObj have "scan_blocks loads ep pre st = Inr st'" by simp
        from Cons.IH [OF this Cons.prems(2)] Parsed JObj False show ?thesis by simp
      qed
    qed (use Cons Parsed in simp_all)
  qed
qed

lemma scan_blocks_skip:
  "loads b = JSONDecodeError \<Longrightarrow>
   scan_blocks loads ep (pre @ b # rest) st = scan_blocks loads ep (pre @ rest) st"
  by (induction pre arbitrary: st)
     (simp_all add: Let_def split: loads_result.splits json.splits)

lemma apple_episode_url:
  "map_of d ''url'' = Some v \<Longrightarrow> truthy v \<Longrightarrow> fst (apple_episode d st) = v"
  by (cases st) (simp add: apple_episode_def has_key_def dict_get_def Let_def)

lemma pattern_scan_truthy: "truthy a \<Longrightarrow> pattern_scan preferred page a = a"
  by (simp add: pattern_scan_def)

text \<open>
  C5 (as the code has it). When the structured-data scan ends with a true media URL, both
  locators return exactly that value and the audio URLs found elsewhere in the page play
  no part. On the Apple Podcasts path, when the first episode block that yields anything
  carries a true top-level \<open>url\<close> field, the value returned is that field.
\<close>

theorem structured_data_first:
  "(requests_get env u = Inr page \<and>
    scan_blocks (json_loads env) apple_episode (json_ld_findall page) start = Inr (audio_url, t, sh) \<and>
    truthy audio_url \<longrightarrow>
      extract_apple_podcasts_audio_url env u = Inr (audio_url, t, sh)) \<and>
   (requests_get env u = Inr page \<and>
    scan_blocks (json_loads env) acast_episode (json_ld_findall page) start = Inr (audio_url, t, sh) \<and>
    truthy audio_url \<longrightarrow>
      extract_acast_audio_url env u = Inr (audio_url, t, sh)) \<and>
   (requests_get env u = Inr page \<and> json_ld_findall page = pre @ b # rest \<and>
    scan_blocks (json_loads env) apple_episode pre start = Inr st \<and> \<not> truthy (fst st) \<and>
    json_loads env b = Parsed (JObj d) \<and> dict_get d ''@type'' JNull = JStr ''PodcastEpisode'' \<and>
    map_of d ''url'' = Some v \<and> truthy v \<longrightarrow>
      (\<exists>t' sh'. extract_apple_podcasts_audio_url env u = Inr (v, t', sh')))"
proof (intro conjI impI)
  assume "requests_get env u = Inr page \<and>
    scan_blocks (json_loads env) apple_episode (json_ld_findall page) start = Inr (audio_url, t, sh) \<and>
    truthy audio_url"
  then show "extract_apple_podcasts_audio_url env u = Inr (audio_url, t, sh)"
    by (simp add: extract_apple_podcasts_audio_url_def pattern_scan_truthy)
next
  assume "requests_get env u = Inr page \<and>
    scan_blocks (json_loads env) acast_episode (json_ld_findall page) start = Inr (audio_url, t, sh) \<and>
    truthy audio_url"
  then show "extract_acast_audio_url env u = Inr (audio_url, t, sh)"
    by (simp add: extract_acast_audio_url_def pattern_scan_truthy Let_def split: option.splits)
next
  assume h: "requests_get env u = Inr page \<and> json_ld_findall page = pre @ b # rest \<and>
    scan_blocks (json_loads env) apple_episode pre start = Inr st \<and> \<not> truthy (fst st) \<and>
    json_loads env b = Parsed (JObj d) \<and> dict_get d ''@type'' JNull = JStr ''PodcastEpisode'' \<and>
    map_of d ''url'' = Some v \<and> truthy v"
  from h have u: "fst (apple_episode d st) = v" by (simp add: apple_episode_url)
  from h have "scan_blocks (json_loads env) apple_episode (json_ld_findall page) start =
      scan_blocks (json_loads env) apple_episode (b # rest) st"
    by (simp add: scan_blocks_append)
  also from h u have "\<dots> = Inr (apple_episode d st)" by (simp add: Let_def)
  finally have r: "scan_blocks (json_loads env) apple_episode (json_ld_findall page) start =
      Inr (apple_episode d st)" .
  obtain a' t' sh' where e: "apple_episode d st = (a', t', sh')"
    by (cases "apple_episode d st") auto
  with u have "a' = v" by simp
  with h r e have "extract_apple_podcasts_audio_url env u = Inr (v, t', sh')"
    by (simp add: extract_apple_podcasts_audio_url_def pattern_scan_truthy)
  then show "\<exists>t' sh'. extract_apple_podcasts_audio_url env u = Inr (v, t', sh')" by blast
qed

theorem structured_data_first_witness:
  "requests_get sample_pod_env apple_url = Inr page_direct \<and>
   scan_blocks (json_loads sample_pod_env) apple_episode (json_ld_findall page_direct) start =
     Inr (JStr ''https://a.example/ep1.mp3'', JStr ''Unknown Episode'', JStr ''Unknown Show'') \<and>
   truthy (JStr ''https://a.example/ep1.mp3'') \<and>
   audio_findall page_direct =
     [''https://b.example/other.mp3'', ''https://a.example/ep1.mp3'',
      ''https://a.example/ep1.mp3''] \<and>
   extract_apple_podcasts_audio_url sample_pod_env apple_url =
     Inr (JStr ''https://a.example/ep1.mp3'', JStr ''Unknown Episode'', JStr ''Unknown Show'') \<and>
   requests_get sample_pod_env acast_url2 = Inr page_media \<and>
   scan_blocks (json_loads sample_pod_env) acast_episode (json_ld_findall page_media) start =
     Inr (JStr ''https://sphinx.acast.com/p/ep7.mp3'', JStr ''Episode 7'', JStr ''The Show'') \<and>
   extract_acast_audio_url sample_pod_env acast_url2 =
     Inr (JStr ''https://sphinx.acast.com/p/ep7.mp3'', JStr ''Episode 7'', JStr ''The Show'') \<and>
   json_ld_findall page_direct = [] @ block_direct # [] \<and>
   scan_blocks (json_loads sample_pod_env) apple_episode [] start = Inr start \<and>
   \<not> truthy (fst start) \<and>
   json_loads sample_pod_env block_direct = Parsed (JObj direct_fields) \<and>
   dict_get direct_fields ''@type'' JNull = JStr ''PodcastEpisode'' \<and>
   map_of direct_fields ''url'' = Some (JStr ''https://a.example/ep1.mp3'')"
proof -
  have f1: "requests_get sample_pod_env apple_url = Inr page_direct" by code_simp
  have f2: "scan_blocks (json_loads sample_pod_env) apple_episode (json_ld_findall page_direct)
      start = Inr (JStr ''https://a.example/ep1.mp3'', JStr ''Unknown Episode'', JStr ''Unknown Show'')"
    by code_simp
  have f3: "audio_findall page_direct =
     [''https://b.example/other.mp3'', ''https://a.example/ep1.mp3'',
      ''https://a.example/ep1.mp3'']" by code_simp
  have f4: "requests_get sample_pod_env acast_url2 = Inr page_media" by code_simp
  have f5: "scan_blocks (json_loads sample_pod_env) acast_episode (json_ld_findall page_media)
      start = Inr (JStr ''https://sphinx.acast.com/p/ep7.mp3'', JStr ''Episode 7'', JStr ''The Show'')"
    by code_simp
  have f6: "json_ld_findall page_direct = [] @ block_direct # []" by code_simp
  have f7: "scan_blocks (json_loads sample_pod_env) apple_episode [] start = Inr start"
    "\<not> truthy (fst start)" by code_simp+
  have f8: "json_loads sample_pod_env block_direct = Parsed (JObj direct_fields)" by code_simp
  have f9: "dict_get direct_fields ''@type'' JNull = JStr ''PodcastEpisode''" by code_simp
  have f10: "map_of direct_fields ''url'' = Some (JStr ''https://a.example/ep1.mp3'')"
    by code_simp
  from structured_data_first [where env = sample_pod_env and u = apple_url
         and page = page_direct and audio_url = "JStr ''https://a.example/ep1.mp3''"
         and t = "JStr ''Unknown Episode''" and sh = "JStr ''Unknown Show''"
         and pre = "[]" and b = block_direct and rest = "[]" and d = direct_fields
         and st = start
         and v = "JStr ''https://a.example/ep1.mp3''"]
       f1 f2 f6 f7 f8 f9 f10
  have a: "extract_apple_podcasts_audio_url sample_pod_env apple_url =
     Inr (JStr ''https://a.example/ep1.mp3'', JStr ''Unknown Episode'', JStr ''Unknown Show'')"
    by simp
  from structured_data_first [where env = sample_pod_env and u = acast_url2
         and page = page_media and audio_url = "JStr ''https://sphinx.acast.com/p/ep7.mp3''"
         and t = "JStr ''Episode 7''" and sh = "JStr ''The Show''"]
       f4 f5
  have b: "extract_acast_audio_url sample_pod_env acast_url2 =
     Inr (JStr ''https://sphinx.acast.com/p/ep7.mp3'', JStr ''Episode 7'', JStr ''The Show'')"
    by simp
  from a b f1 f2 f3 f4 f5 f6 f7 f8 f9 f10 show ?thesis by simp
qed

text \<open>
  The Acast locator does not read a top-level field of the episode block: on a page whose
  episode block carries the media URL both as \<open>url\<close> and as \<open>contentUrl\<close>, it returns
  another audio URL found in the page text.
\<close>

theorem structured_data_first_counterexample:
  "requests_get sample_pod_env acast_url = Inr page_direct \<and>
   json_ld_findall page_direct = [block_direct] \<and>
   json_loads sample_pod_env block_direct = Parsed (JObj direct_fields) \<and>
   map_of direct_fields ''@type'' = Some (JStr ''PodcastEpisode'') \<and>
   map_of direct_fields ''contentUrl'' = Some (JStr ''https://a.example/ep1.mp3'') \<and>
   map_of direct_fields ''url'' = Some (JStr ''https://a.example/ep1.mp3'') \<and>
   extract_acast_audio_url sample_pod_env acast_url =
     Inr (JStr ''https://b.example/other.mp3'', JStr ''Unknown Episode'', JStr ''Unknown Show'')"
  by code_simp

text \<open>
  C3 (as the code has it). When the page fetch fails, the Acast locator raises the fetch
  error whatever the episode URL looks like. The URL constructed from the identifiers is
  returned when the page was fetched and neither the structured data nor the pattern scan
  gave a media URL.
\<close>

theorem acast_fetch_failure:
  "(requests_get env u = Inl e \<longrightarrow> extract_acast_audio_url env u = Inl (FailedToFetchAcastPage e)) \<and>
   (requests_get env u = Inr page \<and> search_acast u = Some (show_id, episode_id) \<and>
    scan_blocks (json_loads env) acast_episode (json_ld_findall page) start = Inr (a, t, sh) \<and>
    \<not> truthy a \<and> audio_findall page = [] \<longrightarrow>
      extract_acast_audio_url env u =
        Inr (JStr (''https://play.acast.com/s/'' @ show_id @ ''/'' @ episode_id @ ''.mp3''), t, sh))"
  by (simp add: extract_acast_audio_url_def pattern_scan_def Let_def)

theorem acast_fetch_failure_witness:
  "requests_get offline_pod_env acast_url = Inl ''Connection refused'' \<and>
   extract_acast_audio_url offline_pod_env acast_url =
     Inl (FailedToFetchAcastPage ''Connection refused'') \<and>
   requests_get sample_pod_env acast_url3 = Inr page_plain \<and>
   search_acast acast_url3 = Some (''abc123'', ''000aaa'') \<and>
   scan_blocks (json_loads sample_pod_env) acast_episode (json_ld_findall page_plain) start =
     Inr (JNull, JStr ''Unknown Episode'', JStr ''Unknown Show'') \<and>
   \<not> truthy JNull \<and> audio_findall page_plain = [] \<and>
   extract_acast_audio_url sample_pod_env acast_url3 =
     Inr (JStr ''https://play.acast.com/s/abc123/000aaa.mp3'', JStr ''Unknown Episode'',
          JStr ''Unknown Show'')"
proof -
  have f1: "requests_get offline_pod_env acast_url = Inl ''Connection refused''" by code_simp
  have f2: "requests_get sample_pod_env acast_url3 = Inr page_plain" by code_simp
  have f3: "search_acast acast_url3 = Some (''abc123'', ''000aaa'')" by code_simp
  have f4: "scan_blocks (json_loads sample_pod_env) acast_episode (json_ld_findall page_plain)
      start = Inr (JNull, JStr ''Unknown Episode'', JStr ''Unknown Show'')" by code_simp
  have f5: "audio_findall page_plain = []" by code_simp
  from acast_fetch_failure [where env = offline_pod_env and u = acast_url
         and e = "''Connection refused''"]
       acast_fetch_failure [where env = sample_pod_env and u = acast_url3 and page = page_plain
         and show_id = "''abc123''" and episode_id = "''000aaa''" and a = JNull
         and t = "JStr ''Unknown Episode''" and sh = "JStr ''Unknown Show''"]
       f1 f2 f3 f4 f5
  show ?thesis by simp
qed

text \<open>
  An episode URL of the expected shape and a refused connection: the locator raises and
  does not return \<open>https://play.acast.com/s/abc123/def456.mp3\<close>.
\<close>

theorem acast_fetch_failure_counterexample:
  "search_acast acast_url = Some (''abc123'', ''def456'') \<and>
   requests_get offline_pod_env acast_url = Inl ''Connection refused'' \<and>
   extract_acast_audio_url offline_pod_env acast_url =
     Inl (FailedToFetchAcastPage ''Connection refused'')"
  by code_simp

text \<open>
  An exception of \<open>json.loads\<close> other than \<open>JSONDecodeError\<close> leaves the locator: the
  blocks after it are not looked at.
\<close>

lemma scan_blocks_raises:
  "scan_blocks loads ep pre st = Inr st' \<Longrightarrow> \<not> truthy (fst st') \<Longrightarrow>
   loads b = LoadsError msg \<Longrightarrow>
   scan_blocks loads ep (pre @ b # rest) st = Inl (Raised msg)"
  by (simp add: scan_blocks_append)

lemma locator_raises:
  assumes "requests_get env u = Inr page" "json_ld_findall page = pre @ b # rest"
    and "json_loads env b = LoadsError msg"
    and "scan_blocks (json_loads env) apple_episode pre start = Inr st1" "\<not> truthy (fst st1)"
    and "scan_blocks (json_loads env) acast_episode pre start = Inr st2" "\<not> truthy (fst st2)"
  shows "extract_apple_podcasts_audio_url env u = Inl (Raised msg)"
    and "extract_acast_audio_url env u = Inl (Raised msg)"
  using assms
  by (simp_all add: extract_apple_podcasts_audio_url_def extract_acast_audio_url_def
        scan_blocks_raises Let_def)

lemma huge_integer_block_aborts:
  "json_loads sample_pod_env block_huge = LoadsError digit_limit \<and>
   scan_blocks (json_loads sample_pod_env) acast_episode [block_huge, block_media] start =
     Inl (Raised digit_limit) \<and>
   scan_blocks (json_loads sample_pod_env) acast_episode [block_media] start =
     Inr (JStr ''https://sphinx.acast.com/p/ep7.mp3'', JStr ''Episode 7'', JStr ''The Show'')"
  by code_simp

text \<open>
  C7 (as the code has it). In an episode block the Apple Podcasts locator takes a true
  top-level \<open>url\<close>; failing that the \<open>contentUrl\<close> of an \<open>associatedMedia\<close> object; failing
  that the \<open>url\<close> of that object. The Acast locator reads the \<open>contentUrl\<close> of
  \<open>associatedMedia\<close> and nothing else. A block on which \<open>json.loads\<close> raises
  \<open>JSONDecodeError\<close> is passed over wherever it stands in the page: the scan gives what it
  gives on the page without that block.
\<close>

theorem media_url_priority:
  "(map_of d ''url'' = Some v \<and> truthy v \<longrightarrow> fst (apple_episode d (au, ti, sh)) = v) \<and>
   (\<not> truthy au \<and> \<not> truthy (dict_get d ''url'' JNull) \<and>
    map_of d ''associatedMedia'' = Some (JObj m) \<and> map_of m ''contentUrl'' = Some v \<and> truthy v \<longrightarrow>
      fst (apple_episode d (au, ti, sh)) = v) \<and>
   (\<not> truthy au \<and> \<not> truthy (dict_get d ''url'' JNull) \<and>
    map_of d ''associatedMedia'' = Some (JObj m) \<and> \<not> truthy (dict_get m ''contentUrl'' JNull) \<longrightarrow>
      fst (apple_episode d (au, ti, sh)) = dict_get m ''url'' JNull) \<and>
   (map_of d ''associatedMedia'' = Some (JObj m) \<longrightarrow>
      fst (acast_episode d (au, ti, sh)) = dict_get m ''contentUrl'' JNull) \<and>
   (map_of d ''associatedMedia'' = None \<longrightarrow> fst (acast_episode d (au, ti, sh)) = au) \<and>
   (loads b = JSONDecodeError \<longrightarrow>
      scan_blocks loads ep (pre @ b # rest) st = scan_blocks loads ep (pre @ rest) st)"
  by (auto simp: apple_episode_def acast_episode_def has_key_def dict_get_def py_or_def Let_def
              scan_blocks_skip
           split: option.splits)

theorem media_url_priority_witness:
  "map_of direct_fields ''url'' = Some (JStr ''https://a.example/ep1.mp3'') \<and>
   fst (apple_episode direct_fields (JNull, JStr ''Unknown Episode'', JStr ''Unknown Show'')) =
     JStr ''https://a.example/ep1.mp3'' \<and>
   \<not> truthy (dict_get episode_media_fields ''url'' JNull) \<and>
   map_of episode_media_fields ''associatedMedia'' = Some (JObj media_fields) \<and>
   map_of media_fields ''contentUrl'' = Some (JStr ''https://sphinx.acast.com/p/ep7.mp3'') \<and>
   fst (apple_episode episode_media_fields
          (JNull, JStr ''Unknown Episode'', JStr ''Unknown Show'')) =
     JStr ''https://sphinx.acast.com/p/ep7.mp3'' \<and>
   \<not> truthy (dict_get generic_only_fields ''url'' JNull) \<and>
   map_of generic_only_fields ''associatedMedia'' =
     Some (JObj [(''url'', JStr ''https://a.example/generic.mp3'')]) \<and>
   \<not> truthy (dict_get [(''url'', JStr ''https://a.example/generic.mp3'')] ''contentUrl'' JNull) \<and>
   fst (apple_episode generic_only_fields
          (JNull, JStr ''Unknown Episode'', JStr ''Unknown Show'')) =
     JStr ''https://a.example/generic.mp3'' \<and>
   fst (acast_episode episode_media_fields
          (JNull, JStr ''Unknown Episode'', JStr ''Unknown Show'')) =
     JStr ''https://sphinx.acast.com/p/ep7.mp3'' \<and>
   map_of direct_fields ''associatedMedia'' = None \<and>
   fst (acast_episode direct_fields (JNull, JStr ''Unknown Episode'', JStr ''Unknown Show'')) =
     JNull \<and>
   loads_sample ''not json'' = JSONDecodeError \<and>
   scan_blocks loads_sample acast_episode ([block_direct] @ ''not json'' # [block_media]) start =
     scan_blocks loads_sample acast_episode ([block_direct] @ [block_media]) start \<and>
   scan_blocks loads_sample acast_episode [block_direct, ''not json'', block_media] start =
     Inr (JStr ''https://sphinx.acast.com/p/ep7.mp3'', JStr ''Episode 7'', JStr ''The Show'')"
proof -
  have f1: "map_of direct_fields ''url'' = Some (JStr ''https://a.example/ep1.mp3'')"
    by code_simp
  have f2: "\<not> truthy (dict_get episode_media_fields ''url'' JNull)" by code_simp
  have f3: "map_of episode_media_fields ''associatedMedia'' = Some (JObj media_fields)"
    by code_simp
  have f4: "map_of media_fields ''contentUrl'' = Some (JStr ''https://sphinx.acast.com/p/ep7.mp3'')"
    by code_simp
  have f5: "\<not> truthy (dict_get generic_only_fields ''url'' JNull)" by code_simp
  have f6: "map_of generic_only_fields ''associatedMedia'' =
     Some (JObj [(''url'', JStr ''https://a.example/generic.mp3'')])" by code_simp
  have f7: "\<not> truthy (dict_get [(''url'', JStr ''https://a.example/generic.mp3'')]
     ''contentUrl'' JNull)" by code_simp
  have f8: "map_of direct_fields ''associatedMedia'' = None" by code_simp
  have f9: "loads_sample ''not json'' = JSONDecodeError" by code_simp
  have f10: "scan_blocks loads_sample acast_episode [block_direct, ''not json'', block_media]
      start = Inr (JStr ''https://sphinx.acast.com/p/ep7.mp3'', JStr ''Episode 7'',
                   JStr ''The Show'')" by code_simp
  have g: "dict_get media_fields ''contentUrl'' JNull = JStr ''https://sphinx.acast.com/p/ep7.mp3''"
    "dict_get [(''url'', JStr ''https://a.example/generic.mp3'')] ''url'' JNull =
       JStr ''https://a.example/generic.mp3''"
    by code_simp+
  from media_url_priority [where d = direct_fields and v = "JStr ''https://a.example/ep1.mp3''"
         and au = JNull and ti = "JStr ''Unknown Episode''" and sh = "JStr ''Unknown Show''"
         and loads = loads_sample and b = "''not json''" and ep = acast_episode
         and pre = "[block_direct]" and rest = "[block_media]" and st = start]
       media_url_priority [where d = episode_media_fields and m = media_fields
         and v = "JStr ''https://sphinx.acast.com/p/ep7.mp3''"
         and au = JNull and ti = "JStr ''Unknown Episode''" and sh = "JStr ''Unknown Show''"]
       media_url_priority [where d = generic_only_fields
         and m = "[(''url'', JStr ''https://a.example/generic.mp3'')]"
         and au = JNull and ti = "JStr ''Unknown Episode''" and sh = "JStr ''Unknown Show''"]
       f1 f2 f3 f4 f5 f6 f7 f8 f9 f10 g
  show ?thesis by simp
qed

text \<open>
  Blocks with a direct field only, or with only the generic \<open>url\<close> of the media object,
  give the Acast locator nothing; a top-level \<open>contentUrl\<close> gives the Apple Podcasts
  locator nothing.
\<close>

theorem media_url_priority_counterexample:
  "dict_get direct_fields ''@type'' JNull = JStr ''PodcastEpisode'' \<and>
   map_of direct_fields ''url'' = Some (JStr ''https://a.example/ep1.mp3'') \<and>
   map_of direct_fields ''contentUrl'' = Some (JStr ''https://a.example/ep1.mp3'') \<and>
   fst (acast_episode direct_fields start) = JNull \<and>
   fst (acast_episode generic_only_fields start) = JNull \<and>
   fst (apple_episode content_url_fields start) = JNull"
  by code_simp

lemma match_audio_at_nonempty: "match_audio_at s = Some (m, rest) \<Longrightarrow> m \<noteq> []"
  by (auto simp: match_audio_at_def Let_def split: if_splits option.splits list.splits)

lemma audio_findall_nonempty: "m \<in> set (audio_findall s) \<Longrightarrow> m \<noteq> []"
  by (induction s rule: audio_findall.induct)
     (auto split: option.splits dest: match_audio_at_nonempty)

lemma pattern_scan_choice:
  assumes "\<not> truthy a" "audio_findall page = ms" "ms \<noteq> []"
  shows "\<exists>i < length ms. pattern_scan P page a = JStr (ms ! i) \<and> truthy (JStr (ms ! i)) \<and>
           (\<forall>j < i. \<not> P (ms ! j)) \<and> (P (ms ! i) \<or> i = 0 \<and> (\<forall>x \<in> set ms. \<not> P x))"
proof (cases "find P ms")
  case None
  then have "\<forall>x \<in> set ms. \<not> P x" by (auto simp: find_None_iff)
  moreover from assms None have "pattern_scan P page a = JStr (ms ! 0)"
    by (cases ms) (simp_all add: pattern_scan_def)
  moreover from assms have "ms ! 0 \<in> set (audio_findall page)" by (cases ms) auto
  then have "truthy (JStr (ms ! 0))" by (auto dest: audio_findall_nonempty)
  ultimately show ?thesis using assms by auto
next
  case (Some x)
  then obtain i where i: "i < length ms" "P (ms ! i)" "x = ms ! i" "\<forall>j < i. \<not> P (ms ! j)"
    by (auto simp: find_Some_iff)
  from assms Some have "pattern_scan P page a = JStr x"
    by (cases ms) (simp_all add: pattern_scan_def)
  moreover from i assms have "ms ! i \<in> set (audio_findall page)" by simp
  then have "truthy (JStr (ms ! i))" by (auto dest: audio_findall_nonempty)
  ultimately show ?thesis using i by auto
qed

text \<open>
  C8 (as the code has it). When the structured data gives no media URL and the pattern
  scan finds matches, the locator returns the first match, in document order, whose
  lower-cased text contains one of the platform's keywords anywhere (\<open>cdn_hosts\<close> on the
  Apple Podcasts path, \<open>acast\<close> or \<open>media\<close> on the Acast path), and the first match of
  all when no match contains a keyword.
\<close>

theorem pattern_scan_preference:
  "(requests_get env u = Inr page \<and>
    scan_blocks (json_loads env) apple_episode (json_ld_findall page) start = Inr (a, t, sh) \<and>
    \<not> truthy a \<and> audio_findall page = ms \<and> ms \<noteq> [] \<longrightarrow>
      (\<exists>i < length ms. extract_apple_podcasts_audio_url env u = Inr (JStr (ms ! i), t, sh) \<and>
         (\<forall>j < i. \<not> apple_preferred (ms ! j)) \<and>
         (apple_preferred (ms ! i) \<or> i = 0 \<and> (\<forall>x \<in> set ms. \<not> apple_preferred x)))) \<and>
   (requests_get env u = Inr page \<and>
    scan_blocks (json_loads env) acast_episode (json_ld_findall page) start = Inr (a, t, sh) \<and>
    \<not> truthy a \<and> audio_findall page = ms \<and> ms \<noteq> [] \<longrightarrow>
      (\<exists>i < length ms. extract_acast_audio_url env u = Inr (JStr (ms ! i), t, sh) \<and>
         (\<forall>j < i. \<not> acast_preferred (ms ! j)) \<and>
         (acast_preferred (ms ! i) \<or> i = 0 \<and> (\<forall>x \<in> set ms. \<not> acast_preferred x))))"
proof (intro conjI impI)
  assume h: "requests_get env u = Inr page \<and>
    scan_blocks (json_loads env) apple_episode (json_ld_findall page) start = Inr (a, t, sh) \<and>
    \<not> truthy a \<and> audio_findall page = ms \<and> ms \<noteq> []"
  then obtain i where i: "i < length ms" "pattern_scan apple_preferred page a = JStr (ms ! i)"
    "truthy (JStr (ms ! i))" "\<forall>j < i. \<not> apple_preferred (ms ! j)"
    "apple_preferred (ms ! i) \<or> i = 0 \<and> (\<forall>x \<in> set ms. \<not> apple_preferred x)"
    using pattern_scan_choice [of a page ms apple_preferred] by blast
  from h i(2,3) have "extract_apple_podcasts_audio_url env u = Inr (JStr (ms ! i), t, sh)"
    by (simp add: extract_apple_podcasts_audio_url_def)
  with i show "\<exists>i < length ms.
       extract_apple_podcasts_audio_url env u = Inr (JStr (ms ! i), t, sh) \<and>
       (\<forall>j < i. \<not> apple_preferred (ms ! j)) \<and>
       (apple_preferred (ms ! i) \<or> i = 0 \<and> (\<forall>x \<in> set ms. \<not> apple_preferred x))"
    by blast
next
  assume h: "requests_get env u = Inr page \<and>
    scan_blocks (json_loads env) acast_episode (json_ld_findall page) start = Inr (a, t, sh) \<and>
    \<not> truthy a \<and> audio_findall page = ms \<and> ms \<noteq> []"
  then obtain i where i: "i < length ms" "pattern_scan acast_preferred page a = JStr (ms ! i)"
    "truthy (JStr (ms ! i))" "\<forall>j < i. \<not> acast_preferred (ms ! j)"
    "acast_preferred (ms ! i) \<or> i = 0 \<and> (\<forall>x \<in> set ms. \<not> acast_preferred x)"
    using pattern_scan_choice [of a page ms acast_preferred] by blast
  from h i(2,3) have "extract_acast_audio_url env u = Inr (JStr (ms ! i), t, sh)"
    by (simp add: extract_acast_audio_url_def Let_def split: option.splits)
  with i show "\<exists>i < length ms.
       extract_acast_audio_url env u = Inr (JStr (ms ! i), t, sh) \<and>
       (\<forall>j < i. \<not> acast_preferred (ms ! j)) \<and>
       (acast_preferred (ms ! i) \<or> i = 0 \<and> (\<forall>x \<in> set ms. \<not> acast_preferred x))"
    by blast
qed

theorem pattern_scan_preference_witness:
  "requests_get sample_pod_env apple_url2 = Inr page_two_urls \<and>
   scan_blocks (json_loads sample_pod_env) apple_episode (json_ld_findall page_two_urls) start =
     Inr (JNull, JStr ''Unknown Episode'', JStr ''Unknown Show'') \<and>
   \<not> truthy JNull \<and>
   audio_findall page_two_urls =
     [''https://files.example.org/libsyn-backup/ep.mp3'',
      ''https://traffic.libsyn.com/show/ep.mp3''] \<and>
   apple_preferred ''https://files.example.org/libsyn-backup/ep.mp3'' \<and>
   extract_apple_podcasts_audio_url sample_pod_env apple_url2 =
     Inr (JStr ''https://files.example.org/libsyn-backup/ep.mp3'', JStr ''Unknown Episode'',
          JStr ''Unknown Show'') \<and>
   requests_get sample_pod_env acast_url = Inr page_direct \<and>
   scan_blocks (json_loads sample_pod_env) acast_episode (json_ld_findall page_direct) start =
     Inr (JNull, JStr ''Unknown Episode'', JStr ''Unknown Show'') \<and>
   audio_findall page_direct =
     [''https://b.example/other.mp3'', ''https://a.example/ep1.mp3'',
      ''https://a.example/ep1.mp3''] \<and>
   \<not> acast_preferred ''https://b.example/other.mp3'' \<and>
   \<not> acast_preferred ''https://a.example/ep1.mp3'' \<and>
   extract_acast_audio_url sample_pod_env acast_url =
     Inr (JStr ''https://b.example/other.mp3'', JStr ''Unknown Episode'', JStr ''Unknown Show'')"
proof -
  have f1: "requests_get sample_pod_env apple_url2 = Inr page_two_urls" by code_simp
  have f2: "scan_blocks (json_loads sample_pod_env) apple_episode (json_ld_findall page_two_urls)
      start = Inr (JNull, JStr ''Unknown Episode'', JStr ''Unknown Show'')" by code_simp
  have f3: "audio_findall page_two_urls =
     [''https://files.example.org/libsyn-backup/ep.mp3'',
      ''https://traffic.libsyn.com/show/ep.mp3'']" by code_simp
  have f4: "apple_preferred ''https://files.example.org/libsyn-backup/ep.mp3''" by code_simp
  have f5: "requests_get sample_pod_env acast_url = Inr page_direct" by code_simp
  have f6: "scan_blocks (json_loads sample_pod_env) acast_episode (json_ld_findall page_direct)
      start = Inr (JNull, JStr ''Unknown Episode'', JStr ''Unknown Show'')" by code_simp
  have f7: "audio_findall page_direct =
     [''https://b.example/other.mp3'', ''https://a.example/ep1.mp3'',
      ''https://a.example/ep1.mp3'']" by code_simp
  have f8: "\<not> acast_preferred ''https://b.example/other.mp3''"
    "\<not> acast_preferred ''https://a.example/ep1.mp3''" by code_simp+
  from pattern_scan_preference [where env = sample_pod_env and u = apple_url2
         and page = page_two_urls and a = JNull and t = "JStr ''Unknown Episode''"
         and sh = "JStr ''Unknown Show''"
         and ms = "[''https://files.example.org/libsyn-backup/ep.mp3'',
                    ''https://traffic.libsyn.com/show/ep.mp3'']"] f1 f2 f3 f4
  have a: "extract_apple_podcasts_audio_url sample_pod_env apple_url2 =
     Inr (JStr ''https://files.example.org/libsyn-backup/ep.mp3'', JStr ''Unknown Episode'',
          JStr ''Unknown Show'')"
    by (auto simp: less_Suc_eq numeral_2_eq_2)
  from pattern_scan_preference [where env = sample_pod_env and u = acast_url
         and page = page_direct and a = JNull and t = "JStr ''Unknown Episode''"
         and sh = "JStr ''Unknown Show''"
         and ms = "[''https://b.example/other.mp3'', ''https://a.example/ep1.mp3'',
                    ''https://a.example/ep1.mp3'']"] f5 f6 f7 f8
  have b: "extract_acast_audio_url sample_pod_env acast_url =
     Inr (JStr ''https://b.example/other.mp3'', JStr ''Unknown Episode'', JStr ''Unknown Show'')"
    by (auto simp: less_Suc_eq numeral_3_eq_3)
  from a b f1 f2 f3 f4 f5 f6 f7 f8 show ?thesis by simp
qed

text \<open>
  Two matches, the first on a host outside the list with a keyword in its path, the second
  on a listed host: the first is returned.
\<close>

theorem pattern_scan_preference_counterexample:
  "requests_get sample_pod_env apple_url2 = Inr page_two_urls \<and>
   json_ld_findall page_two_urls = [] \<and>
   audio_findall page_two_urls =
     [''https://files.example.org/libsyn-backup/ep.mp3'',
      ''https://traffic.libsyn.com/show/ep.mp3''] \<and>
   url_host ''https://files.example.org/libsyn-backup/ep.mp3'' = ''files.example.org'' \<and>
   \<not> host_recognized ''https://files.example.org/libsyn-backup/ep.mp3'' \<and>
   url_host ''https://traffic.libsyn.com/show/ep.mp3'' = ''traffic.libsyn.com'' \<and>
   host_recognized ''https://traffic.libsyn.com/show/ep.mp3'' \<and>
   extract_apple_podcasts_audio_url sample_pod_env apple_url2 =
     Inr (JStr ''https://files.example.org/libsyn-backup/ep.mp3'', JStr ''Unknown Episode'',
          JStr ''Unknown Show'')"
  by code_simp

text \<open>
  C9 (as the code has it). \<open>transcribe_audio\<close> lets the engine decide for the hint
  \<open>auto\<close> and forwards every other hint. \<open>transcribe_with_local_whisper\<close> lets the engine
  decide for the hint \<open>en\<close> and forwards every other hint, \<open>auto\<close> included. The
  remote engine is sent the hint unchanged.
\<close>

theorem language_hint_forwarding:
  "(WHISPER_AVAILABLE env \<longrightarrow>
      transcribe_audio env f l m =
        (case whisper_transcribe env m f (if l = ''auto'' then None else Some l) of
           Inr text \<Rightarrow> Inr text
         | Inl e \<Rightarrow> Inl (TranscriptionFailed e))) \<and>
   (WHISPER_AVAILABLE env \<longrightarrow>
      transcribe_with_local_whisper env f l m =
        (case whisper_transcribe env m f (if l = ''en'' then None else Some l) of
           Inr text \<Rightarrow> Inr text
         | Inl e \<Rightarrow> Inl (LocalWhisperFailed e))) \<and>
   transcribe_with_whishper yenv f server l =
     (case requests_post yenv (rstrip_slash server @ ''/api/transcriptions'') f l of
        ReplyText text \<Rightarrow> Inr text
      | ReplyTimeout \<Rightarrow> Inl TranscriptionTimedOut
      | ReplyConnectionError \<Rightarrow> Inl (CouldNotConnect server)
      | ReplyException e \<Rightarrow> Inl (TranscriptionFailed e))"
  by (simp add: transcribe_audio_def transcribe_with_local_whisper_def
        transcribe_with_whishper_def)

theorem language_hint_forwarding_witness:
  "WHISPER_AVAILABLE echo_host \<and>
   transcribe_audio echo_host ''episode.mp3'' ''auto'' ''base'' = Inr ''engine decides'' \<and>
   transcribe_audio echo_host ''episode.mp3'' ''en'' ''base'' = Inr ''en'' \<and>
   transcribe_with_local_whisper echo_host ''episode.mp3'' ''en'' ''base'' =
     Inr ''engine decides'' \<and>
   transcribe_with_local_whisper echo_host ''episode.mp3'' ''fr'' ''base'' = Inr ''fr''"
proof -
  have av: "WHISPER_AVAILABLE echo_host" by code_simp
  have e: "whisper_transcribe echo_host ''base'' ''episode.mp3'' None = Inr ''engine decides''"
    "whisper_transcribe echo_host ''base'' ''episode.mp3'' (Some ''en'') = Inr ''en''"
    "whisper_transcribe echo_host ''base'' ''episode.mp3'' (Some ''fr'') = Inr ''fr''"
    by code_simp+
  from language_hint_forwarding [where env = echo_host and f = "''episode.mp3''"
         and l = "''auto''" and m = "''base''" and yenv = sample_env
         and server = "''http://localhost:8082''"]
       language_hint_forwarding [where env = echo_host and f = "''episode.mp3''"
         and l = "''en''" and m = "''base''" and yenv = sample_env
         and server = "''http://localhost:8082''"]
       language_hint_forwarding [where env = echo_host and f = "''episode.mp3''"
         and l = "''fr''" and m = "''base''" and yenv = sample_env
         and server = "''http://localhost:8082''"]
       av e
  show ?thesis by simp
qed

text \<open>
  With an engine that answers with the language it was given:
  \<open>transcribe_with_local_whisper\<close> does not forward \<open>en\<close>, and forwards \<open>auto\<close> as a code.
\<close>

theorem language_hint_forwarding_counterexample:
  "WHISPER_AVAILABLE echo_host \<and>
   transcribe_with_local_whisper echo_host ''episode.mp3'' ''en'' ''base'' =
     Inr ''engine decides'' \<and>
   transcribe_with_local_whisper echo_host ''episode.mp3'' ''auto'' ''base'' = Inr ''auto''"
  by code_simp

text \<open>
  The transcription-failure handler of transcript\_downloader.py (lines 438-443) removes
  the downloaded file unless it is to be kept.
\<close>

lemma transcription_failure_cleans_up:
  assumes "download_audio env (url a) (path_join (gettempdir env) ''youtube_transcripts'') fs =
             (Inr f, fs')"
    and "snd (transcribe_downloaded env a langs f) = Inl e"
    and "\<not> keep_audio a"
  shows "f \<notin> disk (audio_transcription env a vid langs tried fs)"
  using assms
  by (cases "transcribe_downloaded env a langs f")
     (simp add: audio_transcription_def cleanup_def)

lemma transcript_downloader_failure_run:
  "status (main no_whisper_env pinned_args {}) =
     SysExit1 (ErrorDuringAudioTranscription WhisperNotInstalled) \<and>
   \<not> keep_audio pinned_args \<and>
   download_audio no_whisper_env (url pinned_args) ''/tmp/youtube_transcripts'' {} =
     (Inr ''/tmp/youtube_transcripts/dQw4w9WgXcQ.mp3'',
      {''/tmp/youtube_transcripts/dQw4w9WgXcQ.mp3''}) \<and>
   disk (main no_whisper_env pinned_args {}) = {}"
  by code_simp

text \<open>
  C4. A run of podcast\_transcriber.py without \<open>--keep-audio\<close> in which the download
  succeeds and Whisper is not installed exits with status 1 and leaves the downloaded
  audio file on disk; the same run with a working engine removes it.
\<close>

theorem podcast_failure_leaves_audio:
  "\<not> p_keep_audio sample_pargs \<and>
   \<not> WHISPER_AVAILABLE no_whisper_pod_env \<and>
   status (podcast_main no_whisper_pod_env sample_pargs {}) =
     SysExit1 (ErrorLine WhisperNotInstalled) \<and>
   ''/tmp/podcast_audio/Unknown-Episode.mp3''
     \<in> disk (podcast_main no_whisper_pod_env sample_pargs {}) \<and>
   status (podcast_main sample_pod_env sample_pargs {}) = Returned \<and>
   ''/tmp/podcast_audio/Unknown-Episode.mp3''
     \<notin> disk (podcast_main sample_pod_env sample_pargs {})"
  by code_simp

end
